theory Spec2Isabelle
  imports Complex_Main "HOL-Library.AList" "HOL-Library.Sublist"
begin

section \<open>Strings and dictionaries\<close>

text \<open>
  Python strings are modelled as \<open>string\<close> (lists of 8-bit characters), a dictionary
  with string keys as a map \<open>string \<rightharpoonup> 'v\<close>; \<open>d.get(k)\<close> is \<open>d k\<close>, the key \<open>k\<close> is
  absent when \<open>d k = None\<close>. An optional argument (\<open>None\<close> or a string) is a
  \<open>string option\<close>; Python's truth test of such a value (\<^verbatim>\<open>if version:\<close>) fails for
  \<open>None\<close> and for the empty string.
\<close>

definition truthy :: "string option \<Rightarrow> bool" where
  "truthy x = (case x of None \<Rightarrow> False | Some s \<Rightarrow> s \<noteq> [])"

text \<open>\<^verbatim>\<open>s.split(d)\<close> for a one-character separator: the result is never empty.\<close>

fun split_on :: "char \<Rightarrow> string \<Rightarrow> string list" where
  "split_on d [] = [[]]"
| "split_on d (c # cs) =
     (if c = d then [] # split_on d cs
      else (case split_on d cs of [] \<Rightarrow> [[c]] | x # xs \<Rightarrow> (c # x) # xs))"

subsection \<open>The version test of \<open>splitFolder\<close>\<close>

text \<open>
  \<^verbatim>\<open>re.match('^v\d(\.\d+)*$', s)\<close>. The characters of the model are the 8-bit
  characters (code points below 256), and names are strings of these; among them
  \<^verbatim>\<open>\d\<close> matches the ten digits \<^verbatim>\<open>0\<close> to \<^verbatim>\<open>9\<close> and nothing else. (On a Python \<^verbatim>\<open>str\<close>,
  \<^verbatim>\<open>\d\<close> also matches the decimal digits of other scripts; they all lie above this
  range, so names that hold one are not strings of the model.) Python's \<^verbatim>\<open>$\<close> (no MULTILINE flag) matches at the end
  of the string and also just before a line feed that is the last character of the
  string. \<open>version_tail\<close> recognises \<^verbatim>\<open>(\.\d+)*$\<close>: the end, a final line feed,
  or a dot and one digit, after which the greedy \<^verbatim>\<open>\d+\<close> takes every further digit
  (giving one back never helps, since what follows a group is a dot or the end).
\<close>

definition is_digit :: "char \<Rightarrow> bool" where
  "is_digit c = (c \<in> set ''0123456789'')"

function version_tail :: "string \<Rightarrow> bool" where
  "version_tail [] = True"
| "version_tail [c] = (c = CHR 0x0A)"
| "version_tail (c # d # ds) =
     (c = CHR ''.'' \<and> is_digit d \<and> version_tail (dropWhile is_digit ds))"
  by pat_completeness auto
termination
proof (relation "measure length")
  show "wf (measure length)" by simp
next
  fix c d :: char and ds :: string
  have "length (dropWhile is_digit ds) \<le> length ds" by (rule length_dropWhile_le)
  then show "(dropWhile is_digit ds, c # d # ds) \<in> measure length" by simp
qed

definition version_match :: "string \<Rightarrow> bool" where
  "version_match s =
     (case s of
        v # d # rest \<Rightarrow> v = CHR ''v'' \<and> is_digit d \<and> version_tail rest
      | _ \<Rightarrow> False)"

text \<open>
  The grammar \<^verbatim>\<open>v\d(\.\d+)*\<close> itself, as the set of strings it derives: the same
  recogniser without the line-feed case of \<^verbatim>\<open>$\<close>. It is what the specification
  calls the version grammar; the code only ever runs \<open>version_match\<close>.
\<close>

function grammar_tail :: "string \<Rightarrow> bool" where
  "grammar_tail [] = True"
| "grammar_tail [c] = False"
| "grammar_tail (c # d # ds) =
     (c = CHR ''.'' \<and> is_digit d \<and> grammar_tail (dropWhile is_digit ds))"
  by pat_completeness auto
termination
proof (relation "measure length")
  show "wf (measure length)" by simp
next
  fix c d :: char and ds :: string
  have "length (dropWhile is_digit ds) \<le> length ds" by (rule length_dropWhile_le)
  then show "(dropWhile is_digit ds, c # d # ds) \<in> measure length" by simp
qed

definition version_grammar :: "string \<Rightarrow> bool" where
  "version_grammar s =
     (case s of
        v # d # rest \<Rightarrow> v = CHR ''v'' \<and> is_digit d \<and> grammar_tail rest
      | _ \<Rightarrow> False)"

section \<open>Folder names\<close>

text \<open>
  \<^verbatim>\<open>
  def splitFolder(folder):
      a = folder.split('_')
      parts = {'folder': a[0]}
      if len(a) > 1:
          if re.match('^v\d(\.\d+)*$', a[1]): parts['version'] = a[1]
          else: parts['lang'] = a[1]
      if len(a) > 2: parts['lang'] = a[2]
      return parts
  \<close>
  \<open>a[0]\<close> always exists, since \<open>split\<close> returns at least one segment; the model
  spells the three lengths out.
\<close>

definition splitFolder :: "string \<Rightarrow> (string \<rightharpoonup> string)" where
  "splitFolder folder =
     (case split_on CHR ''_'' folder of
        [] \<Rightarrow> Map.empty
      | a0 # r \<Rightarrow>
          (let parts = [''folder'' \<mapsto> a0];
               parts = (case r of
                          [] \<Rightarrow> parts
                        | a1 # _ \<Rightarrow>
                            if version_match a1 then parts(''version'' \<mapsto> a1)
                            else parts(''lang'' \<mapsto> a1));
               parts = (case r of
                          _ # a2 # _ \<Rightarrow> parts(''lang'' \<mapsto> a2)
                        | _ \<Rightarrow> parts)
           in parts))"

text \<open>
  \<^verbatim>\<open>
  def joinFolder(folder, language, version = None):
      name = folder
      if version: name += '_' + version
      if language: name += '_' + language
      return name
  \<close>
\<close>

definition joinFolder :: "string \<Rightarrow> string option \<Rightarrow> string option \<Rightarrow> string" where
  "joinFolder folder language version =
     (let name = folder;
          name = (case version of
                    Some v \<Rightarrow> if truthy version then name @ ''_'' @ v else name
                  | None \<Rightarrow> name);
          name = (case language of
                    Some l \<Rightarrow> if truthy language then name @ ''_'' @ l else name
                  | None \<Rightarrow> name)
      in name)"

section \<open>Exceptions\<close>

text \<open>
  Every exception the modelled code can raise is a value; a function that can raise
  returns \<open>exn + 'a\<close>, with \<open>Inl\<close> the exception. \<open>bindE\<close> is sequencing: the first
  exception ends the computation. \<open>foldE\<close> is a \<^verbatim>\<open>for\<close> loop whose body can raise.
\<close>

datatype exn =
    UnsupportedParamException string
  | TypeError
  | AttributeError
  | KeyError
  | IndexError
  | ValueError
  | FileNotFoundError
  | IsADirectoryError
  | NotADirectoryError
  | FileExistsError

definition bindE :: "exn + 'a \<Rightarrow> ('a \<Rightarrow> exn + 'b) \<Rightarrow> exn + 'b" where
  "bindE m f = (case m of Inl e \<Rightarrow> Inl e | Inr x \<Rightarrow> f x)"

fun foldE :: "('s \<Rightarrow> 'a \<Rightarrow> exn + 's) \<Rightarrow> 'a list \<Rightarrow> 's \<Rightarrow> exn + 's" where
  "foldE f [] s = Inr s"
| "foldE f (x # xs) s = bindE (f s x) (foldE f xs)"

section \<open>Params\<close>

text \<open>
  \<^verbatim>\<open>json.load\<close> returns any JSON value. An object is the list of its items (a Python
  dict, so the keys are distinct); a float is a real number (the non-finite floats that
  \<^verbatim>\<open>json.load\<close> also accepts are non-zero in every test made here and are not
  represented).
\<close>

datatype json =
    JNull
  | JBool bool
  | JInt int
  | JFloat real
  | JStr string
  | JList "json list"
  | JDict "(string \<times> json) list"

text \<open>Python's truth value of a JSON value.\<close>

fun py_truthy :: "json \<Rightarrow> bool" where
  "py_truthy JNull = False"
| "py_truthy (JBool b) = b"
| "py_truthy (JInt i) = (i \<noteq> 0)"
| "py_truthy (JFloat x) = (x \<noteq> 0)"
| "py_truthy (JStr s) = (s \<noteq> [])"
| "py_truthy (JList l) = (l \<noteq> [])"
| "py_truthy (JDict d) = (d \<noteq> [])"

text \<open>\<^verbatim>\<open>p in s\<close> for two strings: \<open>p\<close> occurs in \<open>s\<close> as a contiguous piece.\<close>

fun is_substr :: "string \<Rightarrow> string \<Rightarrow> bool" where
  "is_substr p [] = (p = [])"
| "is_substr p (c # cs) = (prefix p (c # cs) \<or> is_substr p cs)"

text \<open>
  \<^verbatim>\<open>key in prms\<close> for a string \<open>key\<close>: a key of a dict, an element of a list, a
  piece of a string; any other value is not iterable.
\<close>

fun py_contains :: "json \<Rightarrow> string \<Rightarrow> exn + bool" where
  "py_contains (JDict d) k = Inr (k \<in> fst ` set d)"
| "py_contains (JList l) k = Inr (JStr k \<in> set l)"
| "py_contains (JStr s) k = Inr (is_substr k s)"
| "py_contains _ k = Inl TypeError"

text \<open>
  \<^verbatim>\<open>prms[key]\<close> for a string \<open>key\<close>: only a dict can be indexed by a string.
\<close>

fun py_getitem :: "json \<Rightarrow> string \<Rightarrow> exn + json" where
  "py_getitem (JDict d) k = (case map_of d k of Some v \<Rightarrow> Inr v | None \<Rightarrow> Inl KeyError)"
| "py_getitem _ k = Inl TypeError"

text \<open>
  \<^verbatim>\<open>os.path.join(a, *p)\<close> on segments that hold no separator (they come from
  \<^verbatim>\<open>d.split('/')\<close>): a separator is put between two segments unless the path so far
  is empty or already ends with one.
\<close>

definition os_join :: "string list \<Rightarrow> string" where
  "os_join segs =
     (case segs of
        [] \<Rightarrow> []
      | a # p \<Rightarrow> fold (\<lambda>b path. if path = [] \<or> last path = CHR ''/'' then path @ b
                              else path @ ''/'' @ b) p a)"

text \<open>
  \<^verbatim>\<open>
  def parseParams():
      def parseDir(d): return join(*d.split('/'))
      if 'PARENT' in Params.prms:
          Params.prms['PARENT'] = {folder: parseDir(dir)
                                   for folder, dir in Params.prms['PARENT'].items()}
  \<close>
  \<open>.items()\<close> exists on a dict only and \<open>.split\<close> on a string only: anything else
  raises \<open>AttributeError\<close>.
\<close>

fun parseDir :: "json \<Rightarrow> exn + json" where
  "parseDir (JStr d) = Inr (JStr (os_join (split_on CHR ''/'' d)))"
| "parseDir _ = Inl AttributeError"

fun parseDirs :: "(string \<times> json) list \<Rightarrow> exn + (string \<times> json) list" where
  "parseDirs [] = Inr []"
| "parseDirs ((folder, dir) # rest) =
     bindE (parseDir dir) (\<lambda>d. bindE (parseDirs rest) (\<lambda>r. Inr ((folder, d) # r)))"

definition parseParams :: "json \<Rightarrow> exn + json" where
  "parseParams prms =
     bindE (py_contains prms ''PARENT'') (\<lambda>has.
       if has then
         bindE (py_getitem prms ''PARENT'') (\<lambda>parent.
           case parent of
             JDict items \<Rightarrow>
               bindE (parseDirs items) (\<lambda>parsed.
                 case prms of
                   JDict d \<Rightarrow> Inr (JDict (AList.update ''PARENT'' (JDict parsed) d))
                 | _ \<Rightarrow> Inl TypeError)
           | _ \<Rightarrow> Inl AttributeError)
       else Inr prms)"

text \<open>
  \<^verbatim>\<open>
  def verifyParams():
      if 'PAT' in Params.prms and Params.prms['PAT']:
          raise UnsupportedParamException('PAT')
  \<close>
\<close>

definition verifyParams :: "json \<Rightarrow> exn + unit" where
  "verifyParams prms =
     bindE (py_contains prms ''PAT'') (\<lambda>has.
       if has then
         bindE (py_getitem prms ''PAT'') (\<lambda>pat.
           if py_truthy pat then Inl (UnsupportedParamException ''PAT'') else Inr ())
       else Inr ())"

text \<open>
  \<^verbatim>\<open>
  def loadDefaults():
      Params.prms = dict()
      Params.prms['XDELTA'] = dict()
      Params.prms['PAT'] = dict()
      Params.prms['PARENT'] = dict()
  \<close>
\<close>

definition loadDefaults :: json where
  "loadDefaults = JDict [(''XDELTA'', JDict []), (''PAT'', JDict []), (''PARENT'', JDict [])]"

text \<open>
  \<^verbatim>\<open>
  def loadParams(force_reload = False):
      if not force_reload and Params.prms is not None: return
      try:
          with open(PARAMS_FILE, 'r') as file:
              Params.prms = json.load(file)
      except:
          Params.loadDefaults()
      Params.parseParams()
      Params.verifyParams()
  \<close>
  The class attribute \<open>Params.prms\<close> is the state: \<open>None\<close> before the first load, and
  also after loading a file that holds the JSON value \<^verbatim>\<open>null\<close>, which \<^verbatim>\<open>json.load\<close> returns
  as \<open>None\<close> (\<open>to_prms\<close>). \<open>file\<close> is what reading the parameter file gives: \<open>Some j\<close>
  when it opens and parses to \<open>j\<close>, \<open>None\<close> when either step raises (the bare \<^verbatim>\<open>except\<close>
  catches everything). The result is the outcome of the call and the attribute as the
  call leaves it, also when it raises.
\<close>

definition to_prms :: "json \<Rightarrow> json option" where
  "to_prms j = (if j = JNull then None else Some j)"

definition loadParams :: "json option \<Rightarrow> bool \<Rightarrow> json option \<Rightarrow> (exn + unit) \<times> json option" where
  "loadParams file force_reload prms =
     (if \<not> force_reload \<and> prms \<noteq> None then (Inr (), prms)
      else
        let loaded = (case file of Some j \<Rightarrow> j | None \<Rightarrow> loadDefaults) in
        case parseParams loaded of
          Inl e \<Rightarrow> (Inl e, to_prms loaded)
        | Inr parsed \<Rightarrow> (verifyParams parsed, to_prms parsed))"

text \<open>
  \<^verbatim>\<open>
  def _get(key, default = None):
      Params.loadParams()
      return Params.prms.get(key, default)
  def xdeltaFolders(): return Params._get('XDELTA', dict())
  def parentFolders(): return Params._get('PARENT', dict())
  \<close>
  Only a dict has \<open>get\<close>.
\<close>

definition Params_get :: "json option \<Rightarrow> json option \<Rightarrow> string \<Rightarrow> json \<Rightarrow> (exn + json) \<times> json option" where
  "Params_get file prms key dflt =
     (case loadParams file False prms of
        (Inl e, p) \<Rightarrow> (Inl e, p)
      | (Inr u, p) \<Rightarrow>
          (case p of
             Some (JDict d) \<Rightarrow> (Inr (case map_of d key of Some v \<Rightarrow> v | None \<Rightarrow> dflt), p)
           | _ \<Rightarrow> (Inl AttributeError, p)))"

definition Params_xdeltaFolders :: "json option \<Rightarrow> json option \<Rightarrow> (exn + json) \<times> json option" where
  "Params_xdeltaFolders file prms = Params_get file prms ''XDELTA'' (JDict [])"

definition Params_parentFolders :: "json option \<Rightarrow> json option \<Rightarrow> (exn + json) \<times> json option" where
  "Params_parentFolders file prms = Params_get file prms ''PARENT'' (JDict [])"

section \<open>The file system and the external tools\<close>

text \<open>
  A path is the list of its segments, relative to the working directory; a file system
  is the list of its files with their contents, in the order in which the operating
  system lists them. Directories are implicit: a directory exists when a file lies
  below it, so the file systems of the model are those without empty directories.
  Folder names are single segments, and a segment is a name: the model has no paths
  through \<^verbatim>\<open>.\<close> or \<^verbatim>\<open>..\<close>. \<^verbatim>\<open>os.path.join\<close> on such paths puts segments one after
  the other, and an empty segment names nothing.
\<close>

type_synonym path = "string list"
type_synonym content = string
type_synonym filesys = "(path \<times> content) list"

definition join_path :: "string \<Rightarrow> string list \<Rightarrow> path" where
  "join_path a segs = filter (\<lambda>seg. seg \<noteq> []) (a # segs)"

text \<open>\<^verbatim>\<open>extpath(path) = normpath(path).split(sep)[1:]\<close>: the path below its folder.\<close>

definition extpath :: "path \<Rightarrow> string list" where
  "extpath p = tl p"

text \<open>
  \<^verbatim>\<open>path + suffix\<close> on the text of a path adds to its last segment;
  \<^verbatim>\<open>path[:-n]\<close> cuts the text, across separators when the last segment is shorter.
\<close>

definition add_suffix :: "path \<Rightarrow> string \<Rightarrow> path" where
  "add_suffix p suf = (if p = [] then [suf] else butlast p @ [last p @ suf])"

fun path_text :: "path \<Rightarrow> string" where
  "path_text [] = []"
| "path_text [a] = a"
| "path_text (a # b # p) = a @ ''/'' @ path_text (b # p)"

definition text_path :: "string \<Rightarrow> path" where
  "text_path t = filter (\<lambda>seg. seg \<noteq> []) (split_on CHR ''/'' t)"

definition cut_text :: "nat \<Rightarrow> path \<Rightarrow> path" where
  "cut_text n p = text_path (take (length (path_text p) - n) (path_text p))"

definition cut_name :: "nat \<Rightarrow> string \<Rightarrow> string" where
  "cut_name n name = take (length name - n) name"

definition is_file :: "filesys \<Rightarrow> path \<Rightarrow> bool" where
  "is_file fs p = (map_of fs p \<noteq> None)"

definition is_dir :: "filesys \<Rightarrow> path \<Rightarrow> bool" where
  "is_dir fs p = (p \<noteq> [] \<and> list_ex (\<lambda>(q, c). strict_prefix p q) fs)"

definition path_exists :: "filesys \<Rightarrow> path \<Rightarrow> bool" where
  "path_exists fs p = (is_file fs p \<or> is_dir fs p)"

text \<open>
  The tools outside the repository: the MD5 digest of a content, and the two modes of
  the xdelta program as functions of the contents of their two input files, \<open>None\<close>
  when the program writes no output. Its exit status is never read by the code.
\<close>

record tools =
  digest :: "content \<Rightarrow> string"
  encode :: "content \<Rightarrow> content \<Rightarrow> content option"
  decode :: "content \<Rightarrow> content \<Rightarrow> content option"

text \<open>\<^verbatim>\<open>hash(file)\<close> opens and reads the file.\<close>

definition hash_file :: "tools \<Rightarrow> filesys \<Rightarrow> path \<Rightarrow> exn + string" where
  "hash_file t fs p =
     (case map_of fs p of
        Some c \<Rightarrow> Inr (digest t c)
      | None \<Rightarrow> Inl (if is_dir fs p then IsADirectoryError else FileNotFoundError))"

definition remove :: "filesys \<Rightarrow> path \<Rightarrow> exn + filesys" where
  "remove fs p =
     (case map_of fs p of
        Some c \<Rightarrow> Inr (AList.delete p fs)
      | None \<Rightarrow> Inl (if is_dir fs p then IsADirectoryError else FileNotFoundError))"

text \<open>
  \<^verbatim>\<open>rename(src, dst)\<close> moves a file, or a directory with all that lies below it. The
  code calls it after removing \<open>dst\<close>.
\<close>

definition rename :: "filesys \<Rightarrow> path \<Rightarrow> path \<Rightarrow> exn + filesys" where
  "rename fs src dst =
     (case map_of fs src of
        Some c \<Rightarrow> Inr (AList.update dst c (AList.delete src fs))
      | None \<Rightarrow>
          if is_dir fs src then
            Inr (map (\<lambda>(q, c). if prefix src q then (dst @ drop (length src) q, c) else (q, c)) fs)
          else Inl FileNotFoundError)"

text \<open>
  A program can write a file at \<open>p\<close> when \<open>p\<close> is not a directory and the directory
  that is to hold it exists.
\<close>

definition can_write :: "filesys \<Rightarrow> path \<Rightarrow> bool" where
  "can_write fs p = (p \<noteq> [] \<and> \<not> is_dir fs p \<and> (butlast p = [] \<or> is_dir fs (butlast p)))"

text \<open>
  \<^verbatim>\<open>run([abspath(xdelta), '-f', ..., a, b, out])\<close>: the program in one of its modes
  \<open>f\<close> reads \<open>a\<close> and \<open>b\<close> and writes \<open>out\<close>, replacing what is there; when it cannot
  read or write, or fails, nothing changes and the caller is not told.
\<close>

definition run_tool :: "(content \<Rightarrow> content \<Rightarrow> content option) \<Rightarrow> filesys \<Rightarrow> path \<Rightarrow> path \<Rightarrow> path \<Rightarrow> filesys" where
  "run_tool f fs a b out =
     (case (map_of fs a, map_of fs b) of
        (Some x, Some y) \<Rightarrow>
          (case f x y of
             Some z \<Rightarrow> if can_write fs out then AList.update out z fs else fs
           | None \<Rightarrow> fs)
      | _ \<Rightarrow> fs)"

text \<open>
  \<^verbatim>\<open>makedirs(dirname(dst), exist_ok=True)\<close>: the directory that is to hold \<open>dst\<close>
  is made, with the directories above it. An empty \<open>dirname\<close> raises
  \<open>FileNotFoundError\<close>, a file where a directory above is needed raises
  \<open>NotADirectoryError\<close>, and a file at the directory itself \<open>FileExistsError\<close>. The
  directories made are implicit in the model: the caller writes \<open>dst\<close> next.
  \<^verbatim>\<open>shutil.copyfile(src, dst)\<close> is called after \<^verbatim>\<open>makedirs\<close> or on a path that has
  just been removed.
\<close>

definition makedirs_for :: "filesys \<Rightarrow> path \<Rightarrow> exn + unit" where
  "makedirs_for fs dst =
     (let name = butlast dst in
      if name = [] then Inl FileNotFoundError
      else if list_ex (\<lambda>(q, c). strict_prefix q name) fs then Inl NotADirectoryError
      else if is_file fs name then Inl FileExistsError
      else Inr ())"

definition copyfile :: "filesys \<Rightarrow> path \<Rightarrow> path \<Rightarrow> exn + filesys" where
  "copyfile fs src dst =
     (case map_of fs src of
        Some c \<Rightarrow> if is_dir fs dst then Inl IsADirectoryError else Inr (AList.update dst c fs)
      | None \<Rightarrow> Inl (if is_dir fs src then IsADirectoryError else FileNotFoundError))"

subsection \<open>Walking a folder\<close>

text \<open>
  \<^verbatim>\<open>splitext(n)[1]\<close>: the extension starts at the last dot of the name, unless only
  dots come before it.
\<close>

definition splitext_ext :: "string \<Rightarrow> string" where
  "splitext_ext n =
     (let r = rev n; tail = takeWhile (\<lambda>c. c \<noteq> CHR ''.'') r; rest = dropWhile (\<lambda>c. c \<noteq> CHR ''.'') r
      in if rest = [] then []
         else if list_all (\<lambda>c. c = CHR ''.'') (tl rest) then []
         else CHR ''.'' # rev tail)"

text \<open>
  The file types of a folder: the list of extensions of the configuration, or, in
  \<open>applyXDeltaPatches\<close>, the string \<^verbatim>\<open>'.xdelta'\<close>, on which \<^verbatim>\<open>in\<close> looks for a piece
  of the string.
\<close>

datatype types = ExtList "string list" | ExtString string

fun in_types :: "string \<Rightarrow> types \<Rightarrow> bool" where
  "in_types e (ExtList l) = (e \<in> set l)"
| "in_types e (ExtString s) = is_substr e s"

text \<open>
  \<^verbatim>\<open>[join(dp, f) for dp, dn, fn in walk(dir) for f in [n for n in fn
       if splitext(n)[1] in types]]\<close>: the files below \<open>dir\<close> with an accepted extension.
  A folder that does not exist has none.
\<close>

definition walk :: "filesys \<Rightarrow> string \<Rightarrow> types \<Rightarrow> path list" where
  "walk fs dir tys =
     map fst (filter (\<lambda>(p, c). 2 \<le> length p \<and> hd p = dir \<and> in_types (splitext_ext (last p)) tys) fs)"

text \<open>\<^verbatim>\<open>[dir for dir in listdir('.') if isdir(dir)]\<close>\<close>

definition listdirs :: "filesys \<Rightarrow> string list" where
  "listdirs fs = remdups (map (\<lambda>(p, c). hd p) (filter (\<lambda>(p, c). 2 \<le> length p) fs))"

section \<open>What a run does\<close>

text \<open>
  The state of a run: the file system, the counter dictionary \<open>ctr\<close>, and the trace of
  what the run prints and of the programs it starts, in order. \<open>VERBOSE\<close> is the
  module's constant.
\<close>

datatype event =
    Folder string
  | FileCount nat
  | Warning "string list"
  | Message "string list" string
  | Encode path path path
  | Decode path path path

record state =
  files :: filesys
  ctr :: "string \<rightharpoonup> nat"
  trace :: "event list"

definition VERBOSE :: nat where
  "VERBOSE = 2"

definition say :: "nat \<Rightarrow> nat \<Rightarrow> event \<Rightarrow> state \<Rightarrow> state" where
  "say verbose level e s = (if verbose \<ge> level then s\<lparr>trace := trace s @ [e]\<rparr> else s)"

text \<open>\<^verbatim>\<open>ctr[k] = ctr.get(k, 0) + 1\<close> and \<^verbatim>\<open>ctr.get(k, 0)\<close>\<close>

definition count :: "(string \<rightharpoonup> nat) \<Rightarrow> string \<Rightarrow> nat" where
  "count c k = (case c k of None \<Rightarrow> 0 | Some n \<Rightarrow> n)"

definition bump :: "string \<Rightarrow> state \<Rightarrow> state" where
  "bump k s = s\<lparr>ctr := (ctr s)(k \<mapsto> count (ctr s) k + 1)\<rparr>"

section \<open>loopFiles\<close>

text \<open>
  \<^verbatim>\<open>
  def loopFiles(folders, original_language = None):
      if original_language:
          directories = [splitFolder(dir) for dir in listdir('.') if isdir(dir)]
          for folder, types in folders.items():
              versions = {dir.get('version') for dir in directories
                          if dir['folder'] == folder and dir.get('lang') == original_language}
              if not versions: continue
              for version, language in [(dir.get('version'), dir.get('lang'))
                      for dir in directories if dir['folder'] == folder
                      and dir.get('version') in versions and dir.get('lang') != original_language]:
                  edit_folder = joinFolder(folder, language, version)
                  orig_folder = joinFolder(folder, original_language, version)
                  if VERBOSE >= 1: print(edit_folder, end=' ', flush=True)
                  files = [join(dp, f) for dp, dn, fn in walk(edit_folder)
                           for f in [n for n in fn if splitext(n)[1] in types]]
                  if VERBOSE >= 1: print('[%s]' % len(files))
                  for edit_file in files:
                      yield (folder, edit_file, orig_folder)
      else:
          for folder, types in folders.items():
              for edit_folder in [dir for dir in listdir('.')
                                  if isdir(dir) and splitFolder(dir)['folder'] == folder]:
                  ... the same two prints and the same list of files ...
                  for edit_file in files:
                      yield (folder, edit_file)
  \<close>
  \<open>loopFiles\<close> is a generator: the caller's loop body runs at each \<^verbatim>\<open>yield\<close>, so the
  files of a folder are listed after the body has worked on the folders before it. The
  model takes the caller's body as an argument and runs it on each file yielded, with
  the original folder. \<open>visit_folder\<close> is what both branches do with one edit folder:
  the two prints, the list of files, and the loop that yields them. The list
  \<open>directories\<close> is made once, when the generator starts. Both callers unpack three
  values from what is yielded, so the second branch, which yields two, makes them raise
  \<open>ValueError\<close> at its first file.
\<close>

definition visit_folder ::
  "(string \<Rightarrow> state \<Rightarrow> path \<Rightarrow> exn + state) \<Rightarrow> types \<Rightarrow> string \<Rightarrow> string \<Rightarrow> state \<Rightarrow> exn + state" where
  "visit_folder body tys edit_folder orig_folder s0 =
     (let s = say VERBOSE 1 (Folder edit_folder) s0;
          fl = walk (files s) edit_folder tys;
          s = say VERBOSE 1 (FileCount (length fl)) s
      in foldE (body orig_folder) fl s)"

definition loopFiles ::
  "(string \<times> types) list \<Rightarrow> string option \<Rightarrow> (string \<Rightarrow> state \<Rightarrow> path \<Rightarrow> exn + state) \<Rightarrow> state \<Rightarrow> exn + state" where
  "loopFiles folders original_language body s0 =
     (if truthy original_language then
        let directories = map splitFolder (listdirs (files s0)) in
        foldE (\<lambda>s (folder, tys).
            let versions = map (\<lambda>dir. dir ''version'')
                  (filter (\<lambda>dir. dir ''folder'' = Some folder \<and> dir ''lang'' = original_language)
                     directories)
            in if versions = [] then Inr s
               else
                 foldE (\<lambda>s (version, language).
                     visit_folder body tys (joinFolder folder language version)
                       (joinFolder folder original_language version) s)
                   (map (\<lambda>dir. (dir ''version'', dir ''lang''))
                      (filter (\<lambda>dir. dir ''folder'' = Some folder \<and> dir ''version'' \<in> set versions
                                  \<and> dir ''lang'' \<noteq> original_language) directories))
                   s)
          folders s0
      else
        foldE (\<lambda>s (folder, tys).
            foldE (\<lambda>s edit_folder.
                visit_folder (\<lambda>orig_folder s edit_file. Inl ValueError) tys edit_folder [] s)
              (filter (\<lambda>dir. splitFolder dir ''folder'' = Some folder) (listdirs (files s)))
              s)
          folders s0)"

section \<open>createXDeltaPatches\<close>

text \<open>
  The body of the loop of \<open>createXDeltaPatches\<close>, for one file yielded:
  \<^verbatim>\<open>
      simplename = extpath(edit_file)
      msg_prefix = ' * %s:' % join(*simplename[:-1], simplename[-1]+'.xdelta')
      orig_file = join(orig_folder, *simplename)
      if not exists(orig_file):
          if VERBOSE >= 2: print(' !', 'Warning: Original file not found:', join(*simplename))
          continue
      patch_file = edit_file + '.xdelta'
      if hash(orig_file) == hash(edit_file):
          if exists(patch_file):
              if VERBOSE >= 2: print(msg_prefix, 'delete patch')
              ctr['delete'] = ctr.get('delete', 0) + 1
              remove(patch_file)
          else:
              if VERBOSE >= 3: print(msg_prefix, 'skip')
              ctr['skip'] = ctr.get('skip', 0) + 1
          continue
      if exists(patch_file):
          temp_patch_file = patch_file + '.temp'
          createXDelta(orig_file, edit_file, temp_patch_file)
          if not force_override and hash(patch_file) == hash(temp_patch_file):
              if VERBOSE >= 3: print(msg_prefix, 'keep')
              ctr['keep'] = ctr.get('keep', 0) + 1
              remove(temp_patch_file)
          else:
              if VERBOSE >= 2: print(msg_prefix, 'update')
              ctr['update'] = ctr.get('update', 0) + 1
              remove(patch_file)
              rename(temp_patch_file, patch_file)
      else:
          if VERBOSE >= 2: print(msg_prefix, 'create')
          ctr['create'] = ctr.get('create', 0) + 1
          createXDelta(orig_file, edit_file, patch_file)
  \<close>
\<close>

definition createXDelta :: "tools \<Rightarrow> path \<Rightarrow> path \<Rightarrow> path \<Rightarrow> state \<Rightarrow> state" where
  "createXDelta t orig_file edit_file patch_file s =
     s\<lparr>files := run_tool (encode t) (files s) orig_file edit_file patch_file,
       trace := trace s @ [Encode orig_file edit_file patch_file]\<rparr>"

definition same_hash :: "tools \<Rightarrow> bool \<Rightarrow> filesys \<Rightarrow> path \<Rightarrow> path \<Rightarrow> exn + bool" where
  \<comment> \<open>\<^verbatim>\<open>not force_override and hash(a) == hash(b)\<close>: nothing is read when forced\<close>
  "same_hash t force_override fs a b =
     (if force_override then Inr False
      else bindE (hash_file t fs a) (\<lambda>ha. bindE (hash_file t fs b) (\<lambda>hb. Inr (ha = hb))))"

definition create_item :: "tools \<Rightarrow> bool \<Rightarrow> string \<Rightarrow> state \<Rightarrow> path \<Rightarrow> exn + state" where
  "create_item t force_override orig_folder s edit_file =
     (let simplename = extpath edit_file in
      if simplename = [] then Inl IndexError
      else
        let msg = add_suffix simplename ''.xdelta'';
            orig_file = join_path orig_folder simplename
        in
        if \<not> path_exists (files s) orig_file then Inr (say VERBOSE 2 (Warning simplename) s)
        else
          let patch_file = add_suffix edit_file ''.xdelta'' in
          bindE (hash_file t (files s) orig_file) (\<lambda>ho.
          bindE (hash_file t (files s) edit_file) (\<lambda>he.
            if ho = he then
              (if path_exists (files s) patch_file then
                 let s = bump ''delete'' (say VERBOSE 2 (Message msg ''delete patch'') s) in
                 bindE (remove (files s) patch_file) (\<lambda>fs. Inr (s\<lparr>files := fs\<rparr>))
               else Inr (bump ''skip'' (say VERBOSE 3 (Message msg ''skip'') s)))
            else if path_exists (files s) patch_file then
              let temp_patch_file = add_suffix patch_file ''.temp'';
                  s = createXDelta t orig_file edit_file temp_patch_file s
              in
              bindE (same_hash t force_override (files s) patch_file temp_patch_file) (\<lambda>same.
                if same then
                  let s = bump ''keep'' (say VERBOSE 3 (Message msg ''keep'') s) in
                  bindE (remove (files s) temp_patch_file) (\<lambda>fs. Inr (s\<lparr>files := fs\<rparr>))
                else
                  let s = bump ''update'' (say VERBOSE 2 (Message msg ''update'') s) in
                  bindE (remove (files s) patch_file) (\<lambda>fs.
                  bindE (rename fs temp_patch_file patch_file) (\<lambda>fs. Inr (s\<lparr>files := fs\<rparr>))))
            else
              let s = bump ''create'' (say VERBOSE 2 (Message msg ''create'') s) in
              Inr (createXDelta t orig_file edit_file patch_file s))))"

text \<open>
  \<^verbatim>\<open>
  def createXDeltaPatches(xdelta, original_language, force_override):
      ctr = dict()
      for _, edit_file, orig_folder in loopFiles(Params.xdeltaFolders(), original_language):
          ... the body above ...
      return ctr
  \<close>
  \<open>xdeltaFolders\<close> is what \<open>Params.xdeltaFolders()\<close> returns, the items of the
  \<open>XDELTA\<close> entry of the configuration. The model also returns the file system and the
  trace as the run leaves them.
\<close>

definition createXDeltaPatches ::
  "tools \<Rightarrow> (string \<times> types) list \<Rightarrow> string option \<Rightarrow> bool \<Rightarrow> filesys \<Rightarrow> exn + state" where
  "createXDeltaPatches t xdeltaFolders original_language force_override fs =
     loopFiles xdeltaFolders original_language (create_item t force_override)
       \<lparr>files = fs, ctr = Map.empty, trace = []\<rparr>"

section \<open>applyXDeltaPatches\<close>

text \<open>
  The body of the loop of \<open>applyXDeltaPatches\<close>:
  \<^verbatim>\<open>
      simplename = extpath(patch_file)
      simplename[-1] = simplename[-1][:-len('.xdelta')]
      msg_prefix = ' * %s:' % join(*simplename)
      orig_file = join(orig_folder, *simplename)
      if not exists(orig_file):
          print(' !', 'Warning: Original file not found:', join(*simplename))
          continue
      output_file = patch_file[:-len('.xdelta')]
      if exists(output_file):
          temp_output_file = output_file + '.temp'
          applyXDelta(orig_file, patch_file, temp_output_file)
          if not force_override and hash(output_file) == hash(temp_output_file):
              if VERBOSE >= 3: print(msg_prefix, 'keep')
              ctr['keep'] = ctr.get('keep', 0) + 1
              remove(temp_output_file)
          else:
              if VERBOSE >= 2: print(msg_prefix, 'update')
              ctr['update'] = ctr.get('update', 0) + 1
              remove(output_file)
              rename(temp_output_file, output_file)
      else:
          if VERBOSE >= 2: print(msg_prefix, 'create')
          ctr['create'] = ctr.get('create', 0) + 1
          applyXDelta(orig_file, patch_file, output_file)
  \<close>
\<close>

definition applyXDelta :: "tools \<Rightarrow> path \<Rightarrow> path \<Rightarrow> path \<Rightarrow> state \<Rightarrow> state" where
  "applyXDelta t orig_file patch_file output_file s =
     s\<lparr>files := run_tool (decode t) (files s) orig_file patch_file output_file,
       trace := trace s @ [Decode orig_file patch_file output_file]\<rparr>"

definition apply_item :: "tools \<Rightarrow> bool \<Rightarrow> string \<Rightarrow> state \<Rightarrow> path \<Rightarrow> exn + state" where
  "apply_item t force_override orig_folder s patch_file =
     (let simplename = extpath patch_file in
      if simplename = [] then Inl IndexError
      else
        let simplename = butlast simplename @ [cut_name (length ''.xdelta'') (last simplename)];
            orig_file = join_path orig_folder simplename
        in
        if \<not> path_exists (files s) orig_file then Inr (s\<lparr>trace := trace s @ [Warning simplename]\<rparr>)
        else
          let output_file = cut_text (length ''.xdelta'') patch_file in
          if path_exists (files s) output_file then
            let temp_output_file = add_suffix output_file ''.temp'';
                s = applyXDelta t orig_file patch_file temp_output_file s
            in
            bindE (same_hash t force_override (files s) output_file temp_output_file) (\<lambda>same.
              if same then
                let s = bump ''keep'' (say VERBOSE 3 (Message simplename ''keep'') s) in
                bindE (remove (files s) temp_output_file) (\<lambda>fs. Inr (s\<lparr>files := fs\<rparr>))
              else
                let s = bump ''update'' (say VERBOSE 2 (Message simplename ''update'') s) in
                bindE (remove (files s) output_file) (\<lambda>fs.
                bindE (rename fs temp_output_file output_file) (\<lambda>fs. Inr (s\<lparr>files := fs\<rparr>))))
          else
            let s = bump ''create'' (say VERBOSE 2 (Message simplename ''create'') s) in
            Inr (applyXDelta t orig_file patch_file output_file s))"

text \<open>
  \<^verbatim>\<open>
  def applyXDeltaPatches(xdelta, original_language, force_override):
      ctr = dict()
      folders = dict(zip(Params.xdeltaFolders().keys(), ['.xdelta']*len(Params.xdeltaFolders())))
      for _, patch_file, orig_folder in loopFiles(folders, original_language):
          ... the body above ...
      return ctr
  \<close>
\<close>

definition applyXDeltaPatches ::
  "tools \<Rightarrow> (string \<times> types) list \<Rightarrow> string option \<Rightarrow> bool \<Rightarrow> filesys \<Rightarrow> exn + state" where
  "applyXDeltaPatches t xdeltaFolders original_language force_override fs =
     (let folders = map (\<lambda>(folder, tys). (folder, ExtString ''.xdelta'')) xdeltaFolders in
      loopFiles folders original_language (apply_item t force_override)
        \<lparr>files = fs, ctr = Map.empty, trace = []\<rparr>)"

section \<open>distribute\<close>

text \<open>
  \<^verbatim>\<open>
      def collectFiles(folder, types, ver = None):
          files = list() # list of (filename, simplename)
          for lang in languages + (None,): # fallback from folders without language
              for file in [join(dp, f) for dp, dn, fn in walk(joinFolder(folder, lang, ver))
                           for f in [n for n in fn if splitext(n)[1] in types]]:
                  simplename = extpath(file)
                  if any(s == simplename for _, s in files): continue
                  files.append((file, simplename))
          orig_folder = joinFolder(folder, original_language)
          files = [(f, s) for f, s in files if not exists(join(orig_folder, *s))
                   or hash(join(orig_folder, *s)) != hash(f)]
          return files
  \<close>
  \<open>collect_file\<close> is the body of the inner loop, \<open>candidates\<close> the two loops, and
  \<open>drop_unchanged\<close> the last comprehension, which reads files and can raise.
\<close>

definition collect_file :: "path \<Rightarrow> (path \<times> string list) list \<Rightarrow> (path \<times> string list) list" where
  "collect_file file fl =
     (let simplename = extpath file in
      if list_ex (\<lambda>(f, s). s = simplename) fl then fl else fl @ [(file, simplename)])"

definition candidates ::
  "filesys \<Rightarrow> string list \<Rightarrow> string \<Rightarrow> types \<Rightarrow> string option \<Rightarrow> (path \<times> string list) list" where
  "candidates fs languages folder tys ver =
     fold (\<lambda>lang fl. fold collect_file (walk fs (joinFolder folder lang ver) tys) fl)
       (map Some languages @ [None]) []"

fun drop_unchanged ::
  "tools \<Rightarrow> filesys \<Rightarrow> string \<Rightarrow> (path \<times> string list) list \<Rightarrow> exn + (path \<times> string list) list" where
  "drop_unchanged t fs orig_folder [] = Inr []"
| "drop_unchanged t fs orig_folder ((f, s) # rest) =
     bindE (if \<not> path_exists fs (join_path orig_folder s) then Inr True
            else bindE (hash_file t fs (join_path orig_folder s)) (\<lambda>ho.
                 bindE (hash_file t fs f) (\<lambda>hf. Inr (ho \<noteq> hf))))
       (\<lambda>keep. bindE (drop_unchanged t fs orig_folder rest)
          (\<lambda>r. Inr (if keep then (f, s) # r else r)))"

definition collectFiles ::
  "tools \<Rightarrow> filesys \<Rightarrow> string list \<Rightarrow> string option \<Rightarrow> string \<Rightarrow> types \<Rightarrow> string option
     \<Rightarrow> exn + (path \<times> string list) list" where
  "collectFiles t fs languages original_language folder tys ver =
     drop_unchanged t fs (joinFolder folder original_language None)
       (candidates fs languages folder tys ver)"

text \<open>
  The body of the copy loop of \<open>distributeOtherFiles\<close>; its parameter \<open>VERBOSE\<close> hides
  the module's constant and is called \<open>verbose\<close> here.
  \<^verbatim>\<open>
              for source_file, simplename in files:
                  msg_prefix = ' * %s:' % source_file
                  dest_file = join(dest_folder, *simplename)
                  if exists(dest_file):
                      if not force_override and hash(dest_file) == hash(source_file):
                          if VERBOSE >= 3: print(msg_prefix, 'keep')
                          ctr['keep'] = ctr.get('keep', 0) + 1
                      else:
                          if VERBOSE >= 2: print(msg_prefix, 'update')
                          ctr['update'] = ctr.get('update', 0) + 1
                          remove(dest_file)
                          copyfile(source_file, dest_file)
                  else:
                      if VERBOSE >= 2: print(msg_prefix, 'add')
                      ctr['add'] = ctr.get('add', 0) + 1
                      makedirs(dirname(dest_file), exist_ok=True)
                      copyfile(source_file, dest_file)
  \<close>
\<close>

definition copy_item :: "tools \<Rightarrow> bool \<Rightarrow> nat \<Rightarrow> path \<Rightarrow> state \<Rightarrow> path \<times> string list \<Rightarrow> exn + state" where
  "copy_item t force_override verbose dest_folder s item =
     (case item of (source_file, simplename) \<Rightarrow>
        let dest_file = filter (\<lambda>seg. seg \<noteq> []) (dest_folder @ simplename) in
        if path_exists (files s) dest_file then
          bindE (same_hash t force_override (files s) dest_file source_file) (\<lambda>same.
            if same then Inr (bump ''keep'' (say verbose 3 (Message source_file ''keep'') s))
            else
              let s = bump ''update'' (say verbose 2 (Message source_file ''update'') s) in
              bindE (remove (files s) dest_file) (\<lambda>fs.
              bindE (copyfile fs source_file dest_file) (\<lambda>fs. Inr (s\<lparr>files := fs\<rparr>))))
        else
          let s = bump ''add'' (say verbose 2 (Message source_file ''add'') s) in
          bindE (makedirs_for (files s) dest_file) (\<lambda>u.
          bindE (copyfile (files s) source_file dest_file) (\<lambda>fs. Inr (s\<lparr>files := fs\<rparr>))))"

text \<open>
  One turn of the loop over the versions, for one folder:
  \<^verbatim>\<open>
          for ver in versions: # iterate over versions
              files = collectFiles(folder, types, ver)
              if len(versions) > 1 and ver is None: # remove files that are in the original update
                  update_files = [extpath(join(dp, f)) for dp, dn, fn
                                  in walk(joinFolder(folder, original_language, versions[1]))
                                  for f in [n for n in fn if splitext(n)[1] in types]]
                  files = [(file, simplename) for file, simplename in files
                           if simplename not in update_files]
              if VERBOSE >= 3 or VERBOSE >= 1 and len(files) > 0:
                  print(joinFolder(folder, ver), '[%d]' % len(files))
              dest_folder = join(destination_dir, Params.parentFolders()[folder])
              for source_file, simplename in files:
                  ... the body above ...
  \<close>
  \<open>update_files\<close> and \<open>to_copy\<close> are the two assignments to \<open>files\<close>; \<open>parentFolders\<close> is
  what \<open>Params.parentFolders()\<close> returns, with the destination folders as paths.
\<close>

definition update_files :: "filesys \<Rightarrow> string \<Rightarrow> types \<Rightarrow> string option \<Rightarrow> string option list \<Rightarrow> string list list" where
  "update_files fs folder tys original_language versions =
     map extpath (walk fs (joinFolder folder original_language (versions ! 1)) tys)"

definition to_copy ::
  "tools \<Rightarrow> filesys \<Rightarrow> string list \<Rightarrow> string option \<Rightarrow> string option list \<Rightarrow> string \<Rightarrow> types
     \<Rightarrow> string option \<Rightarrow> exn + (path \<times> string list) list" where
  "to_copy t fs languages original_language versions folder tys ver =
     bindE (collectFiles t fs languages original_language folder tys ver) (\<lambda>fl.
       if length versions > 1 \<and> ver = None then
         Inr (filter (\<lambda>(file, simplename).
                simplename \<notin> set (update_files fs folder tys original_language versions)) fl)
       else Inr fl)"

definition distribute_version ::
  "tools \<Rightarrow> (string \<times> path) list \<Rightarrow> string list \<Rightarrow> string option list \<Rightarrow> string option \<Rightarrow> path
     \<Rightarrow> bool \<Rightarrow> nat \<Rightarrow> string \<Rightarrow> types \<Rightarrow> state \<Rightarrow> string option \<Rightarrow> exn + state" where
  "distribute_version t parentFolders languages versions original_language destination_dir
       force_override verbose folder tys s ver =
     bindE (to_copy t (files s) languages original_language versions folder tys ver) (\<lambda>fl.
       let s = (if verbose \<ge> 3 \<or> verbose \<ge> 1 \<and> length fl > 0
                then s\<lparr>trace := trace s @ [Folder (joinFolder folder ver None), FileCount (length fl)]\<rparr>
                else s)
       in case map_of parentFolders folder of
            None \<Rightarrow> Inl KeyError
          | Some parent \<Rightarrow>
              foldE (copy_item t force_override verbose (destination_dir @ parent)) fl s)"

text \<open>
  \<^verbatim>\<open>
  def distributeOtherFiles(languages, versions, original_language, destination_dir,
                           force_override, VERBOSE):
      ...
      ctr = dict()
      for folder, types in Params.xdeltaFolders().items():
          for ver in versions: # iterate over versions
              ... the turn above ...
      return ctr
  \<close>
\<close>

definition distributeOtherFiles ::
  "tools \<Rightarrow> (string \<times> types) list \<Rightarrow> (string \<times> path) list \<Rightarrow> string list \<Rightarrow> string option list
     \<Rightarrow> string option \<Rightarrow> path \<Rightarrow> bool \<Rightarrow> nat \<Rightarrow> filesys \<Rightarrow> exn + state" where
  "distributeOtherFiles t xdeltaFolders parentFolders languages versions original_language
       destination_dir force_override verbose fs =
     foldE (\<lambda>s (folder, tys).
         foldE (distribute_version t parentFolders languages versions original_language
                  destination_dir force_override verbose folder tys) versions s)
       xdeltaFolders \<lparr>files = fs, ctr = Map.empty, trace = []\<rparr>"

text \<open>
  \<^verbatim>\<open>
  def distribute(languages, version = None, version_only = False, original_language = 'JA',
                 destination_dir = '_dist', force_override = False, verbose = None):
      if verbose is None: verbose = VERBOSE
      if not isinstance(languages, tuple): languages = (languages,)
      if version is None or version == 'v1.0': versions = [None]
      elif version is not None and not version_only: versions = [None, version]
      elif version is not None and version_only: versions = [version]
      ctr = distributeOtherFiles(languages, versions, original_language, destination_dir,
                                 force_override, verbose)
      ...
  \<close>
  \<open>distribute_versions\<close> is the list \<open>versions\<close> that the three tests leave; with a
  Boolean \<open>version_only\<close> the last test is the only case left. \<open>languages\<close> is one
  language or a tuple of languages.
\<close>

definition distribute_versions :: "string option \<Rightarrow> bool \<Rightarrow> string option list" where
  "distribute_versions version version_only =
     (if version = None \<or> version = Some ''v1.0'' then [None]
      else if version \<noteq> None \<and> \<not> version_only then [None, version]
      else [version])"

datatype languages = Language string | Languages "string list"

definition distribute ::
  "tools \<Rightarrow> (string \<times> types) list \<Rightarrow> (string \<times> path) list \<Rightarrow> languages \<Rightarrow> string option \<Rightarrow> bool
     \<Rightarrow> string option \<Rightarrow> path \<Rightarrow> bool \<Rightarrow> nat option \<Rightarrow> filesys \<Rightarrow> exn + state" where
  "distribute t xdeltaFolders parentFolders languages version version_only original_language
       destination_dir force_override verbose fs =
     (let verbose = (case verbose of None \<Rightarrow> VERBOSE | Some n \<Rightarrow> n);
          languages = (case languages of Language l \<Rightarrow> [l] | Languages ls \<Rightarrow> ls);
          versions = distribute_versions version version_only
      in distributeOtherFiles t xdeltaFolders parentFolders languages versions original_language
           destination_dir force_override verbose fs)"

section \<open>The functions as they are called\<close>

text \<open>
  Each of the three functions evaluates \<^verbatim>\<open>Params.xdeltaFolders()\<close> before it does
  anything else: as the argument of \<open>loopFiles\<close> in \<open>createXDeltaPatches\<close>, in the
  assignment to \<open>folders\<close> in \<open>applyXDeltaPatches\<close>, and as the sequence of the outer
  \<^verbatim>\<open>for\<close> in \<open>distributeOtherFiles\<close>. The definitions above take the folder table
  that this call returns as an argument; the definitions here make the call, with
  \<open>file\<close> what reading the parameter file gives and \<open>prms\<close> the attribute
  \<open>Params.prms\<close>, and return the attribute beside the result.

  The table is the \<open>XDELTA\<close> entry as JSON. Anything but an object has no \<open>items\<close> and
  no \<open>keys\<close>. The file types of a folder are tested with \<^verbatim>\<open>in\<close>: on a list the strings
  among its elements count, on an object its keys, on a string its pieces. On any other
  value \<^verbatim>\<open>in\<close> raises as soon as a file name is tested; the loops above are not
  modelled for such a table, and the result is then \<open>None\<close>.
\<close>

fun types_of :: "json \<Rightarrow> types option" where
  "types_of (JList l) = Some (ExtList (concat (map (\<lambda>j. case j of JStr e \<Rightarrow> [e] | _ \<Rightarrow> []) l)))"
| "types_of (JStr e) = Some (ExtString e)"
| "types_of (JDict d) = Some (ExtList (map fst d))"
| "types_of _ = None"

definition folder_types :: "(string \<times> json) list \<Rightarrow> (string \<times> types) list option" where
  "folder_types d =
     (if list_all (\<lambda>(folder, v). types_of v \<noteq> None) d
      then Some (map (\<lambda>(folder, v). (folder, the (types_of v))) d) else None)"

definition run_createXDeltaPatches ::
  "tools \<Rightarrow> json option \<Rightarrow> json option \<Rightarrow> string option \<Rightarrow> bool \<Rightarrow> filesys
     \<Rightarrow> (exn + state) option \<times> json option" where
  "run_createXDeltaPatches t file prms original_language force_override fs =
     (case Params_xdeltaFolders file prms of
        (Inl e, p) \<Rightarrow> (Some (Inl e), p)
      | (Inr (JDict d), p) \<Rightarrow>
          (case folder_types d of
             Some folders \<Rightarrow>
               (Some (createXDeltaPatches t folders original_language force_override fs), p)
           | None \<Rightarrow> (None, p))
      | (Inr _, p) \<Rightarrow> (Some (Inl AttributeError), p))"

text \<open>
  \<open>applyXDeltaPatches\<close> reads the keys of the table only.
\<close>

definition run_applyXDeltaPatches ::
  "tools \<Rightarrow> json option \<Rightarrow> json option \<Rightarrow> string option \<Rightarrow> bool \<Rightarrow> filesys
     \<Rightarrow> (exn + state) option \<times> json option" where
  "run_applyXDeltaPatches t file prms original_language force_override fs =
     (case Params_xdeltaFolders file prms of
        (Inl e, p) \<Rightarrow> (Some (Inl e), p)
      | (Inr (JDict d), p) \<Rightarrow>
          (Some (applyXDeltaPatches t (map (\<lambda>(folder, v). (folder, ExtList [])) d)
                   original_language force_override fs), p)
      | (Inr _, p) \<Rightarrow> (Some (Inl AttributeError), p))"

text \<open>
  \<open>distributeOtherFiles\<close> also calls \<^verbatim>\<open>Params.parentFolders()\<close>, in every turn of its
  loop and so after the first call has loaded the parameters. \<open>parseParams\<close> has made
  every destination folder a string joined with separators; as a path it is the list
  of its segments, of which an empty one and \<^verbatim>\<open>.\<close> name nothing. A segment \<^verbatim>\<open>..\<close> is
  not a name either, and the result is \<open>None\<close> for a table that holds one.
\<close>

definition parent_path :: "json \<Rightarrow> path option" where
  "parent_path j =
     (case j of
        JStr d \<Rightarrow>
          (let segs = filter (\<lambda>seg. seg \<noteq> [] \<and> seg \<noteq> ''.'') (split_on CHR ''/'' d)
           in if ''..'' \<in> set segs then None else Some segs)
      | _ \<Rightarrow> None)"

definition parent_paths :: "json option \<Rightarrow> (string \<times> path) list option" where
  "parent_paths p =
     (case p of
        Some (JDict d) \<Rightarrow>
          (case map_of d ''PARENT'' of
             None \<Rightarrow> Some []
           | Some (JDict ps) \<Rightarrow>
               (if list_all (\<lambda>(folder, j). parent_path j \<noteq> None) ps
                then Some (map (\<lambda>(folder, j). (folder, the (parent_path j))) ps) else None)
           | Some _ \<Rightarrow> None)
      | _ \<Rightarrow> None)"

definition run_distributeOtherFiles ::
  "tools \<Rightarrow> json option \<Rightarrow> json option \<Rightarrow> string list \<Rightarrow> string option list \<Rightarrow> string option
     \<Rightarrow> path \<Rightarrow> bool \<Rightarrow> nat \<Rightarrow> filesys \<Rightarrow> (exn + state) option \<times> json option" where
  "run_distributeOtherFiles t file prms languages versions original_language destination_dir
       force_override verbose fs =
     (case Params_xdeltaFolders file prms of
        (Inl e, p) \<Rightarrow> (Some (Inl e), p)
      | (Inr (JDict d), p) \<Rightarrow>
          (case (folder_types d, parent_paths p) of
             (Some folders, Some parents) \<Rightarrow>
               (Some (distributeOtherFiles t folders parents languages versions original_language
                        destination_dir force_override verbose fs), p)
           | _ \<Rightarrow> (None, p))
      | (Inr _, p) \<Rightarrow> (Some (Inl AttributeError), p))"

section \<open>Reading a run\<close>

text \<open>
  What an observer reads off the result of a run: the sum of the five counters of
  \<open>createXDeltaPatches\<close>, the number of files that \<open>loopFiles\<close> announced (it prints
  the number of files of each folder before it yields them), and the number of
  warnings about a missing original.
\<close>

definition total :: "(string \<rightharpoonup> nat) \<Rightarrow> nat" where
  "total c = count c ''create'' + count c ''update'' + count c ''delete'' + count c ''keep''
             + count c ''skip''"

fun announced :: "event list \<Rightarrow> nat" where
  "announced [] = 0"
| "announced (FileCount n # es) = n + announced es"
| "announced (e # es) = announced es"

fun warnings :: "event list \<Rightarrow> nat" where
  "warnings [] = 0"
| "warnings (Warning p # es) = 1 + warnings es"
| "warnings (e # es) = warnings es"

text \<open>The sum of the three counters of \<open>distributeOtherFiles\<close>.\<close>

definition copied :: "(string \<rightharpoonup> nat) \<Rightarrow> nat" where
  "copied c = count c ''add'' + count c ''update'' + count c ''keep''"

text \<open>
  The run is in balance when every file announced so far is counted once: under one
  of the five counters, or by a warning.
\<close>

definition balanced :: "state \<Rightarrow> bool" where
  "balanced s = (total (ctr s) + warnings (trace s) = announced (trace s))"

section \<open>Two runs in a row\<close>

text \<open>
  Notions to compare a run of \<open>createXDeltaPatches\<close> with the run before it. A path is
  generated when its name ends like a patch or like the temporary file of a patch; the
  sources of a file system are its other files, in their order. A file \<open>edit_file\<close> is
  settled against the original folder when, if the original and the edit can be read,
  either their digests agree and there is no patch file, or they differ and the patch
  file has the digest of what the diff program writes for the two.
\<close>

definition gen_name :: "string \<Rightarrow> bool" where
  "gen_name n = (suffix ''.xdelta'' n \<or> suffix ''.temp'' n)"

definition gen :: "path \<Rightarrow> bool" where
  "gen p = (p \<noteq> [] \<and> gen_name (last p))"

definition sources :: "filesys \<Rightarrow> filesys" where
  "sources fs = filter (\<lambda>(p, c). \<not> gen p) fs"







section \<open>A small instance\<close>

text \<open>
  Tools to run the definitions on concrete inputs: the digest of a content is the
  content itself, the patch of an edited file is that file behind a mark, and
  applying a patch takes the mark away.
\<close>

definition demo_tools :: tools where
  "demo_tools =
     \<lparr>digest = (\<lambda>c. c),
      encode = (\<lambda>orig edit. Some (''D'' @ edit)),
      decode = (\<lambda>orig patch. Some (drop 1 patch))\<rparr>"

text \<open>
  A working directory with the originals in \<^verbatim>\<open>Script_JA\<close> and edits in
  \<^verbatim>\<open>Script_EN\<close>: \<^verbatim>\<open>a.dat\<close> is changed, \<^verbatim>\<open>b.dat\<close> is not, \<^verbatim>\<open>c.dat\<close> has no original,
  and \<^verbatim>\<open>n.txt\<close> has an extension that is not configured.
\<close>

definition demo_fs :: filesys where
  "demo_fs =
     [([''Script_JA'', ''a.dat''], ''A''), ([''Script_JA'', ''b.dat''], ''B''),
      ([''Script_EN'', ''a.dat''], ''A2''), ([''Script_EN'', ''b.dat''], ''B''),
      ([''Script_EN'', ''c.dat''], ''C''), ([''Script_EN'', ''n.txt''], ''N'')]"

definition demo_folders :: "(string \<times> types) list" where
  "demo_folders = [(''Script'', ExtList [''.dat''])]"

text \<open>
  A working directory for \<open>distribute\<close>, with the languages \<^verbatim>\<open>EN\<close> before \<^verbatim>\<open>DE\<close>:
  \<^verbatim>\<open>a.dat\<close> is untranslated in \<^verbatim>\<open>EN\<close> (equal to the original) and translated in
  \<^verbatim>\<open>DE\<close>, \<^verbatim>\<open>b.dat\<close> is translated in both, \<^verbatim>\<open>c.dat\<close> only in \<^verbatim>\<open>DE\<close> and in the
  folder without language, and the update \<^verbatim>\<open>v1.1\<close> has a new original of \<^verbatim>\<open>b.dat\<close>.
\<close>

definition demo_dist_fs :: filesys where
  "demo_dist_fs =
     [([''Script_JA'', ''a.dat''], ''A''), ([''Script_JA'', ''b.dat''], ''B''),
      ([''Script_EN'', ''a.dat''], ''A''), ([''Script_EN'', ''b.dat''], ''BEN''),
      ([''Script_DE'', ''a.dat''], ''ADE''), ([''Script_DE'', ''b.dat''], ''BDE''),
      ([''Script_DE'', ''c.dat''], ''CDE''), ([''Script'', ''c.dat''], ''C0''),
      ([''Script_v1.1_JA'', ''b.dat''], ''B11'')]"

section \<open>Properties of the folder names\<close>

lemma split_on_no_sep: "d \<notin> set s \<Longrightarrow> split_on d s = [s]"
  by (induction s) auto

lemma split_on_append: "d \<notin> set a \<Longrightarrow> split_on d (a @ d # r) = a # split_on d r"
  by (induction a) (auto split: list.splits)

subsection \<open>What the version test accepts\<close>

lemma not_digit_LF: "\<not> is_digit (CHR 0x0A)"
  by (simp add: is_digit_def)

lemma dropWhile_digit_LF:
  "dropWhile is_digit (t @ [CHR 0x0A]) = dropWhile is_digit t @ [CHR 0x0A]"
  by (induction t) (auto simp: not_digit_LF)

lemma dropWhile_snoc_LF:
  assumes "dropWhile is_digit ds = t' @ [CHR 0x0A]"
  shows "\<exists>ds'. ds = ds' @ [CHR 0x0A] \<and> dropWhile is_digit ds' = t'"
proof -
  have "takeWhile is_digit ds @ dropWhile is_digit ds = ds" by simp
  with assms have "ds = (takeWhile is_digit ds @ t') @ [CHR 0x0A]" by (metis append_assoc)
  moreover define ds' where "ds' = takeWhile is_digit ds @ t'"
  ultimately have eq: "ds = ds' @ [CHR 0x0A]" by simp
  with assms have "dropWhile is_digit ds' @ [CHR 0x0A] = t' @ [CHR 0x0A]"
    by (simp add: dropWhile_digit_LF)
  then have "dropWhile is_digit ds' = t'" by simp
  with eq show ?thesis by blast
qed

lemma version_tail_iff:
  "version_tail r \<longleftrightarrow> grammar_tail r \<or> (\<exists>t. r = t @ [CHR 0x0A] \<and> grammar_tail t)"
proof (induction r rule: version_tail.induct)
  case 1
  then show ?case by simp
next
  case (2 c)
  then show ?case by (auto simp: append_eq_Cons_conv)
next
  case (3 c d ds)
  show ?case
  proof
    assume "version_tail (c # d # ds)"
    then have c: "c = CHR ''.''" and d: "is_digit d" and vt: "version_tail (dropWhile is_digit ds)"
      by simp_all
    from vt 3 consider "grammar_tail (dropWhile is_digit ds)"
      | t' where "dropWhile is_digit ds = t' @ [CHR 0x0A]" "grammar_tail t'"
      by blast
    then show "grammar_tail (c # d # ds) \<or> (\<exists>t. c # d # ds = t @ [CHR 0x0A] \<and> grammar_tail t)"
    proof cases
      case 1
      with c d show ?thesis by simp
    next
      case 2
      from dropWhile_snoc_LF [OF 2(1)] obtain ds' where
        "ds = ds' @ [CHR 0x0A]" "dropWhile is_digit ds' = t'" by blast
      with 2(2) c d have "c # d # ds = (c # d # ds') @ [CHR 0x0A] \<and> grammar_tail (c # d # ds')"
        by simp
      then show ?thesis by blast
    qed
  next
    assume "grammar_tail (c # d # ds) \<or> (\<exists>t. c # d # ds = t @ [CHR 0x0A] \<and> grammar_tail t)"
    then show "version_tail (c # d # ds)"
    proof
      assume "grammar_tail (c # d # ds)"
      with 3 show ?thesis by simp
    next
      assume "\<exists>t. c # d # ds = t @ [CHR 0x0A] \<and> grammar_tail t"
      then obtain t where t: "c # d # ds = t @ [CHR 0x0A]" "grammar_tail t" by blast
      then obtain ds' where t': "t = c # d # ds'" "ds = ds' @ [CHR 0x0A]"
        by (cases t rule: grammar_tail.cases) auto
      with t(2) have "c = CHR ''.''" "is_digit d" "grammar_tail (dropWhile is_digit ds')"
        by simp_all
      moreover have "dropWhile is_digit ds = dropWhile is_digit ds' @ [CHR 0x0A]"
        using t'(2) by (simp add: dropWhile_digit_LF)
      ultimately show ?thesis using 3 by auto
    qed
  qed
qed

text \<open>
  The test of \<open>splitFolder\<close> accepts the strings of the grammar \<^verbatim>\<open>v\d(\.\d+)*\<close> and
  those strings followed by one line feed, and nothing else.
\<close>

lemma version_match_iff:
  "version_match s \<longleftrightarrow> version_grammar s \<or> (\<exists>t. s = t @ [CHR 0x0A] \<and> version_grammar t)"
proof
  assume "version_match s"
  then obtain d rest where s: "s = CHR ''v'' # d # rest" "is_digit d" "version_tail rest"
    by (auto simp: version_match_def split: list.splits)
  from s(3) version_tail_iff consider "grammar_tail rest"
    | t where "rest = t @ [CHR 0x0A]" "grammar_tail t" by blast
  then show "version_grammar s \<or> (\<exists>t. s = t @ [CHR 0x0A] \<and> version_grammar t)"
  proof cases
    case 1
    with s show ?thesis by (simp add: version_grammar_def)
  next
    case 2
    with s have "s = (CHR ''v'' # d # t) @ [CHR 0x0A] \<and> version_grammar (CHR ''v'' # d # t)"
      by (simp add: version_grammar_def)
    then show ?thesis by blast
  qed
next
  assume "version_grammar s \<or> (\<exists>t. s = t @ [CHR 0x0A] \<and> version_grammar t)"
  then show "version_match s"
  proof
    assume "version_grammar s"
    then show ?thesis
      using version_tail_iff by (auto simp: version_grammar_def version_match_def split: list.splits)
  next
    assume "\<exists>t. s = t @ [CHR 0x0A] \<and> version_grammar t"
    then obtain t where "s = t @ [CHR 0x0A]" "version_grammar t" by blast
    then show ?thesis
      using version_tail_iff by (auto simp: version_grammar_def version_match_def split: list.splits)
  qed
qed

subsection \<open>Round trip\<close>

text \<open>
  Where the version test and the grammar agree, the round trip holds. Let \<open>b\<close>, \<open>l\<close> and
  \<open>v\<close> hold no underscore, let \<open>v\<close> be unset or accepted by the version test of
  \<open>splitFolder\<close>, and \<open>l\<close> unset or a non-empty string that this test rejects. Then
  \<open>splitFolder (joinFolder b l v)\<close> is the dictionary with \<open>folder\<close> \<open>b\<close>, with \<open>version\<close>
  \<open>v\<close> exactly when \<open>v\<close> is given, with \<open>lang\<close> \<open>l\<close> exactly when \<open>l\<close> is given, and with no
  other key; with both unset it is \<open>{folder: b}\<close>. By \<open>version_match_iff\<close> the test accepts
  every string of the grammar \<^verbatim>\<open>v\d(\.\d+)*\<close>, and besides only such a string followed by
  one line feed.
\<close>

lemma splitFolder_joinFolder_roundtrip:
  assumes "CHR ''_'' \<notin> set b"
    and "\<forall>x. v = Some x \<longrightarrow> CHR ''_'' \<notin> set x \<and> version_match x"
    and "\<forall>x. l = Some x \<longrightarrow> CHR ''_'' \<notin> set x \<and> x \<noteq> [] \<and> \<not> version_match x"
  shows "splitFolder (joinFolder b l v) =
           (\<lambda>k. if k = ''folder'' then Some b else if k = ''version'' then v
                else if k = ''lang'' then l else None)"
  using assms
  by (cases l; cases v)
     (auto simp: splitFolder_def joinFolder_def truthy_def split_on_no_sep split_on_append
        version_match_def fun_eq_iff)

lemma splitFolder_joinFolder_roundtrip_instance:
  "splitFolder (joinFolder ''Script'' (Some ''EN'') (Some ''v1.1'')) =
     (\<lambda>k. if k = ''folder'' then Some ''Script'' else if k = ''version'' then Some ''v1.1''
          else if k = ''lang'' then Some ''EN'' else None)
   \<and> splitFolder (joinFolder ''Script'' None None) ''folder'' = Some ''Script''"
  using splitFolder_joinFolder_roundtrip [of "''Script''" "Some ''v1.1''" "Some ''EN''"]
    splitFolder_joinFolder_roundtrip [of "''Script''" None None]
  by (simp add: version_match_def is_digit_def)

text \<open>
  C1 fails where the pattern of the version test lets a line feed through. The pattern
  \<^verbatim>\<open>'^v\d(\.\d+)*$'\<close> is anchored at both ends to take the whole token, but \<^verbatim>\<open>$\<close>
  also matches before a last line feed. The language \<^verbatim>\<open>v1\<close> followed by a line feed
  holds no underscore, is not empty and is not a string of the grammar; joined to the
  base \<^verbatim>\<open>b\<close> with no version and split again, it comes back under \<open>version\<close>, and
  there is no \<open>lang\<close>, where the claim has \<open>lang\<close> and no \<open>version\<close>.
\<close>

theorem roundtrip_line_feed_divergence:
  "CHR ''_'' \<notin> set ''b'' \<and> CHR ''_'' \<notin> set [CHR ''v'', CHR ''1'', CHR 0x0A]
   \<and> [CHR ''v'', CHR ''1'', CHR 0x0A] \<noteq> []
   \<and> \<not> version_grammar [CHR ''v'', CHR ''1'', CHR 0x0A]
   \<and> splitFolder (joinFolder ''b'' (Some [CHR ''v'', CHR ''1'', CHR 0x0A]) None) ''lang'' = None
   \<and> splitFolder (joinFolder ''b'' (Some [CHR ''v'', CHR ''1'', CHR 0x0A]) None) ''version''
       = Some [CHR ''v'', CHR ''1'', CHR 0x0A]"
  by (simp add: splitFolder_def joinFolder_def truthy_def version_match_def version_grammar_def
      is_digit_def)

subsection \<open>The third segment\<close>

text \<open>
  C2, as the code has it. The third segment of a folder name, when there is one, is the
  language, whether the second segment is a version or not: \<^verbatim>\<open>if len(a) > 2\<close> stands
  beside the test of the second segment, not inside its version branch. For a name
  \<^verbatim>\<open>base_X_Y\<close> with neither \<open>X\<close> nor \<open>Y\<close> a version the language is \<open>Y\<close>: the second
  segment is written to \<open>lang\<close> first and the third replaces it.
\<close>

theorem splitFolder_third_segment:
  assumes "split_on CHR ''_'' name = a0 # a1 # a2 # rest"
  shows "splitFolder name =
           (\<lambda>k. if k = ''folder'' then Some a0 else if k = ''lang'' then Some a2
                else if k = ''version'' \<and> version_match a1 then Some a1 else None)"
  using assms by (auto simp: splitFolder_def Let_def fun_eq_iff)

theorem splitFolder_third_segment_witness:
  "split_on CHR ''_'' ''base_X_Y'' = [''base'', ''X'', ''Y'']
   \<and> splitFolder ''base_X_Y'' ''lang'' = Some ''Y''
   \<and> splitFolder ''base_X_Y'' ''version'' = None"
  using splitFolder_third_segment [of "''base_X_Y''" "''base''" "''X''" "''Y''" "[]"]
  by (simp add: version_match_def)

theorem splitFolder_two_languages_counterexample:
  "\<not> version_match ''X'' \<and> \<not> version_match ''Y''
   \<and> splitFolder ''base_X_Y'' ''lang'' = Some ''Y''
   \<and> splitFolder ''base_X_Y'' ''lang'' \<noteq> Some ''X''"
  by (simp add: splitFolder_def version_match_def)

section \<open>Properties of the configuration\<close>

lemma parseDirs_strings:
  "\<forall>x \<in> snd ` set items. \<exists>str. x = JStr str \<Longrightarrow> \<exists>parsed. parseDirs items = Inr parsed"
  by (induction items) (auto simp: bindE_def)

lemma parseParams_dict:
  assumes "\<forall>v. map_of d ''PARENT'' = Some v \<longrightarrow>
             (\<exists>items. v = JDict items \<and> (\<forall>x \<in> snd ` set items. \<exists>str. x = JStr str))"
  shows "\<exists>p. parseParams (JDict d) = Inr (JDict p)
             \<and> (\<forall>k. k \<noteq> ''PARENT'' \<longrightarrow> map_of p k = map_of d k)"
proof (cases "map_of d ''PARENT''")
  case None
  then have "''PARENT'' \<notin> fst ` set d" by (simp add: map_of_eq_None_iff)
  then show ?thesis by (simp add: parseParams_def bindE_def)
next
  case (Some v)
  with assms obtain items where v: "v = JDict items" "\<forall>x \<in> snd ` set items. \<exists>str. x = JStr str"
    by blast
  from parseDirs_strings [OF v(2)] obtain parsed where "parseDirs items = Inr parsed" by blast
  moreover from Some have "''PARENT'' \<in> fst ` set d" by (metis map_of_eq_None_iff option.distinct(1))
  ultimately show ?thesis using Some v(1) by (simp add: parseParams_def bindE_def update_conv')
qed

lemma verifyParams_dict:
  "verifyParams (JDict d) =
     (if \<exists>v. map_of d ''PAT'' = Some v \<and> py_truthy v then Inl (UnsupportedParamException ''PAT'')
      else Inr ())"
proof (cases "map_of d ''PAT''")
  case None
  then have "''PAT'' \<notin> fst ` set d" by (simp add: map_of_eq_None_iff)
  with None show ?thesis by (simp add: verifyParams_def bindE_def)
next
  case (Some v)
  then have "''PAT'' \<in> fst ` set d" by (metis map_of_eq_None_iff option.distinct(1))
  with Some show ?thesis by (simp add: verifyParams_def bindE_def)
qed

text \<open>
  C9, as the code has it. Take a parameter file holding a JSON object whose \<open>PARENT\<close>
  entry, if there is one, is an object of strings. A call of \<open>loadParams\<close> that loads
  it (\<open>force_reload\<close> is set or nothing is loaded yet) raises
  \<open>UnsupportedParamException('PAT')\<close> when the object has a key \<open>PAT\<close> with a truthy
  value, and returns without raising when \<open>PAT\<close> is absent or falsy; when the file
  cannot be read or parsed the defaults are loaded and the call returns without raising.
  With a truthy \<open>PAT\<close> and nothing loaded yet, the exception is raised by the call of
  \<^verbatim>\<open>Params.xdeltaFolders()\<close> with which each of the three functions begins, and the
  function ends with it on every file system, with every tool and with all arguments:
  before a directory is listed, a file is read or written, a line is printed or a
  program is started. With \<open>PAT\<close> absent or falsy the call returns the \<open>XDELTA\<close> entry
  and \<open>createXDeltaPatches\<close> goes on to its loop with it. \<open>parseParams\<close> runs before
  \<open>verifyParams\<close>, so with any other \<open>PARENT\<close> entry the call raises what \<open>parseParams\<close>
  raises, whatever \<open>PAT\<close> is.
\<close>

theorem loadParams_PAT:
  assumes "force_reload \<or> prms = None"
    and "\<forall>v. map_of d ''PARENT'' = Some v \<longrightarrow>
             (\<exists>items. v = JDict items \<and> (\<forall>x \<in> snd ` set items. \<exists>str. x = JStr str))"
  shows "fst (loadParams (Some (JDict d)) force_reload prms) =
           (if \<exists>v. map_of d ''PAT'' = Some v \<and> py_truthy v
            then Inl (UnsupportedParamException ''PAT'') else Inr ())
         \<and> fst (loadParams None force_reload prms) = Inr ()
         \<and> (if \<exists>v. map_of d ''PAT'' = Some v \<and> py_truthy v
            then fst (Params_xdeltaFolders (Some (JDict d)) None)
                   = Inl (UnsupportedParamException ''PAT'')
               \<and> fst (run_createXDeltaPatches t (Some (JDict d)) None original_language
                         force_override fs)
                   = Some (Inl (UnsupportedParamException ''PAT''))
               \<and> fst (run_applyXDeltaPatches t (Some (JDict d)) None original_language
                         force_override fs)
                   = Some (Inl (UnsupportedParamException ''PAT''))
               \<and> fst (run_distributeOtherFiles t (Some (JDict d)) None languages versions
                         original_language destination_dir force_override verbose fs)
                   = Some (Inl (UnsupportedParamException ''PAT''))
            else fst (Params_xdeltaFolders (Some (JDict d)) None)
                   = Inr (case map_of d ''XDELTA'' of Some v \<Rightarrow> v | None \<Rightarrow> JDict [])
               \<and> (\<forall>x folders. map_of d ''XDELTA'' = Some (JDict x) \<and> folder_types x = Some folders \<longrightarrow>
                     fst (run_createXDeltaPatches t (Some (JDict d)) None original_language
                            force_override fs)
                       = Some (createXDeltaPatches t folders original_language force_override fs)))"
proof -
  from parseParams_dict [OF assms(2)] obtain p where
    p: "parseParams (JDict d) = Inr (JDict p)" "\<forall>k. k \<noteq> ''PARENT'' \<longrightarrow> map_of p k = map_of d k"
    by blast
  from p(2) have pat: "map_of p ''PAT'' = map_of d ''PAT''"
    and xd: "map_of p ''XDELTA'' = map_of d ''XDELTA''" by simp_all
  have load: "fst (loadParams (Some (JDict d)) fr pr) =
           (if \<exists>v. map_of d ''PAT'' = Some v \<and> py_truthy v
            then Inl (UnsupportedParamException ''PAT'') else Inr ())" if "fr \<or> pr = None" for fr pr
    using that p(1) pat by (auto simp: loadParams_def verifyParams_dict)
  have dflt: "fst (loadParams None force_reload prms) = Inr ()"
    using assms(1)
    by (auto simp: loadParams_def loadDefaults_def parseParams_def verifyParams_def bindE_def)
  have snd_load: "snd (loadParams (Some (JDict d)) False None) = Some (JDict p)"
    using p(1) by (simp add: loadParams_def to_prms_def)
  show ?thesis
  proof (cases "\<exists>v. map_of d ''PAT'' = Some v \<and> py_truthy v")
    case True
    with load [of False None]
    have get: "fst (Params_xdeltaFolders (Some (JDict d)) None) = Inl (UnsupportedParamException ''PAT'')"
      by (auto simp: Params_xdeltaFolders_def Params_get_def split: prod.splits sum.splits)
    then have "fst (run_createXDeltaPatches t (Some (JDict d)) None original_language force_override fs)
                = Some (Inl (UnsupportedParamException ''PAT''))"
      and "fst (run_applyXDeltaPatches t (Some (JDict d)) None original_language force_override fs)
                = Some (Inl (UnsupportedParamException ''PAT''))"
      and "fst (run_distributeOtherFiles t (Some (JDict d)) None languages versions
                     original_language destination_dir force_override verbose fs)
                = Some (Inl (UnsupportedParamException ''PAT''))"
      by (auto simp: run_createXDeltaPatches_def run_applyXDeltaPatches_def
          run_distributeOtherFiles_def split: prod.splits sum.splits)
    with load [OF assms(1)] dflt get True show ?thesis by simp
  next
    case False
    with load [of False None] have "fst (loadParams (Some (JDict d)) False None) = Inr ()" by simp
    with snd_load have l: "loadParams (Some (JDict d)) False None = (Inr (), Some (JDict p))"
      by (metis prod.collapse)
    have get: "Params_xdeltaFolders (Some (JDict d)) None
        = (Inr (case map_of d ''XDELTA'' of Some v \<Rightarrow> v | None \<Rightarrow> JDict []), Some (JDict p))"
      by (simp add: Params_xdeltaFolders_def Params_get_def l xd)
    have "fst (run_createXDeltaPatches t (Some (JDict d)) None original_language force_override fs)
                       = Some (createXDeltaPatches t folders original_language force_override fs)"
      if "map_of d ''XDELTA'' = Some (JDict x)" "folder_types x = Some folders" for x folders
      using that by (simp add: run_createXDeltaPatches_def get)
    with load [OF assms(1)] dflt get False show ?thesis by simp
  qed
qed

theorem loadParams_PAT_witness:
  "fst (loadParams (Some (JDict [(''PAT'', JInt 1),
          (''PARENT'', JDict [(''Script'', JStr ''romfs/script'')])])) True None)
     = Inl (UnsupportedParamException ''PAT'')
   \<and> fst (run_createXDeltaPatches demo_tools (Some (JDict [(''PAT'', JInt 1),
          (''PARENT'', JDict [(''Script'', JStr ''romfs/script'')])])) None (Some ''JA'') False demo_fs)
     = Some (Inl (UnsupportedParamException ''PAT''))
   \<and> fst (loadParams (Some (JDict [(''XDELTA'', JDict [(''Script'', JList [JStr ''.dat''])]),
          (''PAT'', JDict [])])) False None)
     = Inr ()
   \<and> fst (run_createXDeltaPatches demo_tools
          (Some (JDict [(''XDELTA'', JDict [(''Script'', JList [JStr ''.dat''])]), (''PAT'', JDict [])]))
          None (Some ''JA'') False demo_fs)
     = Some (createXDeltaPatches demo_tools demo_folders (Some ''JA'') False demo_fs)"
  using loadParams_PAT [of True None "[(''PAT'', JInt 1),
          (''PARENT'', JDict [(''Script'', JStr ''romfs/script'')])]" demo_tools "Some ''JA''" False demo_fs]
    loadParams_PAT [of False None "[(''XDELTA'', JDict [(''Script'', JList [JStr ''.dat''])]),
          (''PAT'', JDict [])]" demo_tools "Some ''JA''" False demo_fs]
  by (simp add: folder_types_def demo_folders_def)

text \<open>
  A parameter file with a truthy \<open>PAT\<close> and a \<open>PARENT\<close> entry that is a number: the
  call raises \<open>AttributeError\<close>, from \<open>parseParams\<close>.
\<close>

theorem loadParams_PARENT_counterexample:
  "map_of [(''PAT'', JBool True), (''PARENT'', JInt 5)] ''PAT'' = Some (JBool True)
   \<and> py_truthy (JBool True)
   \<and> fst (loadParams (Some (JDict [(''PAT'', JBool True), (''PARENT'', JInt 5)])) False None)
       = Inl AttributeError"
  by (simp add: loadParams_def parseParams_def bindE_def)

section \<open>Properties of distribute\<close>

text \<open>
  C7, as the code has it. \<open>distribute\<close> hands \<open>distributeOtherFiles\<close> the tiers
  \<open>[None]\<close> (the base tier alone) when no version is asked for or the version asked for
  is \<^verbatim>\<open>'v1.0'\<close>; for any other version it hands over \<open>[None, version]\<close> when
  \<open>version_only\<close> is false and \<open>[version]\<close> when it is true. The version \<^verbatim>\<open>'v1.0'\<close> is
  the base tier itself, also with \<open>version_only\<close>.
\<close>

theorem distribute_tiers:
  "distribute t xdeltaFolders parentFolders languages version version_only original_language
       destination_dir force_override verbose fs =
     distributeOtherFiles t xdeltaFolders parentFolders
       (case languages of Language l \<Rightarrow> [l] | Languages ls \<Rightarrow> ls)
       (if version = None \<or> version = Some ''v1.0'' then [None]
        else if version_only then [version] else [None, version])
       original_language destination_dir force_override
       (case verbose of None \<Rightarrow> VERBOSE | Some n \<Rightarrow> n) fs"
  by (simp add: distribute_def distribute_versions_def)

theorem distribute_tiers_witness:
  "distribute demo_tools [(''Script'', ExtList [''.dat''])] [(''Script'', [''romfs''])]
       (Language ''EN'') (Some ''v1.1'') False (Some ''JA'') [''_dist''] False None [] =
     distributeOtherFiles demo_tools [(''Script'', ExtList [''.dat''])] [(''Script'', [''romfs''])]
       [''EN''] [None, Some ''v1.1''] (Some ''JA'') [''_dist''] False 2 []"
  using distribute_tiers [of demo_tools "[(''Script'', ExtList [''.dat''])]"
      "[(''Script'', [''romfs''])]" "Language ''EN''" "Some ''v1.1''" False "Some ''JA''"
      "[''_dist'']" False None "[]"]
  by (simp add: VERBOSE_def)

theorem distribute_tiers_v10_counterexample:
  "distribute_versions (Some ''v1.0'') False = [None]
   \<and> distribute_versions (Some ''v1.0'') False \<noteq> [None, Some ''v1.0'']
   \<and> distribute_versions (Some ''v1.0'') True = [None]
   \<and> distribute_versions (Some ''v1.0'') True \<noteq> [Some ''v1.0'']"
  by (simp add: distribute_versions_def)

section \<open>Properties of createXDeltaPatches and applyXDeltaPatches\<close>

subsection \<open>An edit equal to its original\<close>



text \<open>
  When the path of the patch is a directory, \<^verbatim>\<open>exists\<close> holds and \<^verbatim>\<open>remove\<close> raises.
\<close>

lemma create_item_patch_is_directory:
  assumes "extpath edit_file \<noteq> []"
    and "hash_file t (files s) (join_path orig_folder (extpath edit_file)) = Inr h"
    and "hash_file t (files s) edit_file = Inr h"
    and "\<not> is_file (files s) (add_suffix edit_file ''.xdelta'')"
    and "is_dir (files s) (add_suffix edit_file ''.xdelta'')"
  shows "create_item t force_override orig_folder s edit_file = Inl IsADirectoryError"
proof -
  from assms(2) have "is_file (files s) (join_path orig_folder (extpath edit_file))"
    by (auto simp: hash_file_def is_file_def split: option.splits)
  then have ex: "path_exists (files s) (join_path orig_folder (extpath edit_file))"
    by (simp add: path_exists_def)
  show ?thesis
    using assms ex
    by (auto simp: create_item_def Let_def bindE_def say_def VERBOSE_def bump_def remove_def
        path_exists_def is_file_def split: option.splits)
qed

subsection \<open>A missing original\<close>



subsection \<open>The counters add up\<close>

lemma count_upd: "count (c(k \<mapsto> n)) k' = (if k' = k then n else count c k')"
  by (simp add: count_def)

lemma total_bump:
  "k \<in> {''create'', ''update'', ''delete'', ''keep'', ''skip''} \<Longrightarrow>
     total (ctr (bump k s)) = total (ctr s) + 1"
  by (auto simp: total_def bump_def count_upd)

lemma announced_append: "announced (es @ fs) = announced es + announced fs"
  by (induction es rule: announced.induct) auto

lemma warnings_append: "warnings (es @ fs) = warnings es + warnings fs"
  by (induction es rule: warnings.induct) auto

lemma create_item_counts:
  assumes "create_item t force_override orig_folder s f = Inr s'"
  shows "(if path_exists (files s) (join_path orig_folder (extpath f))
          then \<exists>k \<in> {''create'', ''update'', ''delete'', ''keep'', ''skip''}.
                 ctr s' = (ctr s)(k \<mapsto> count (ctr s) k + 1)
          else ctr s' = ctr s)
         \<and> warnings (trace s') =
             warnings (trace s) + (if path_exists (files s) (join_path orig_folder (extpath f)) then 0 else 1)
         \<and> announced (trace s') = announced (trace s)"
  using assms
  by (auto simp: create_item_def Let_def bindE_def say_def VERBOSE_def bump_def createXDelta_def
      warnings_append announced_append
      split: if_splits sum.splits)


lemma foldE_invariant:
  assumes "foldE f xs s = Inr s'" and "P s"
    and "\<And>s x s'. P s \<Longrightarrow> x \<in> set xs \<Longrightarrow> f s x = Inr s' \<Longrightarrow> P s'"
  shows "P s'"
  using assms
proof (induction xs arbitrary: s)
  case Nil
  then show ?case by simp
next
  case (Cons x xs)
  from Cons.prems(1) obtain s1 where s1: "f s x = Inr s1" "foldE f xs s1 = Inr s'"
    by (auto simp: bindE_def split: sum.splits)
  have "P s1" using Cons.prems(3) [OF Cons.prems(2) _ s1(1)] by simp
  with s1(2) show ?case by (rule Cons.IH) (auto intro: Cons.prems(3))
qed

lemma total_upd:
  "k \<in> {''create'', ''update'', ''delete'', ''keep'', ''skip''} \<Longrightarrow>
     total (c(k \<mapsto> count c k + 1)) = total c + 1"
  by (auto simp: total_def count_upd)

lemma create_item_balance:
  assumes "create_item t force_override orig_folder s f = Inr s'"
  shows "total (ctr s') + warnings (trace s') = total (ctr s) + warnings (trace s) + 1
         \<and> announced (trace s') = announced (trace s)"
proof (cases "path_exists (files s) (join_path orig_folder (extpath f))")
  case True
  with create_item_counts [OF assms] obtain k where
    "k \<in> {''create'', ''update'', ''delete'', ''keep'', ''skip''}"
    "ctr s' = (ctr s)(k \<mapsto> count (ctr s) k + 1)"
    "warnings (trace s') = warnings (trace s)" "announced (trace s') = announced (trace s)"
    by auto
  then show ?thesis by (auto simp: total_def count_upd)
next
  case False
  with create_item_counts [OF assms] show ?thesis by simp
qed

lemma create_items_balance:
  "foldE (create_item t force_override orig_folder) fl s = Inr s' \<Longrightarrow>
     total (ctr s') + warnings (trace s') = total (ctr s) + warnings (trace s) + length fl
     \<and> announced (trace s') = announced (trace s)"
proof (induction fl arbitrary: s)
  case Nil
  then show ?case by simp
next
  case (Cons f fl)
  from Cons.prems obtain s1 where s1: "create_item t force_override orig_folder s f = Inr s1"
    "foldE (create_item t force_override orig_folder) fl s1 = Inr s'"
    by (auto simp: bindE_def split: sum.splits)
  from create_item_balance [OF s1(1)] Cons.IH [OF s1(2)] show ?case by simp
qed

lemma loopFiles_invariant:
  assumes run: "loopFiles folders original_language body s0 = Inr s'"
    and init: "P s0"
    and visit: "\<And>b tys e og s s'. b = body \<or> b = (\<lambda>orig_folder s edit_file. Inl ValueError) \<Longrightarrow>
                  P s \<Longrightarrow> visit_folder b tys e og s = Inr s' \<Longrightarrow> P s'"
  shows "P s'"
proof (cases "truthy original_language")
  case True
  let ?dirs = "map splitFolder (listdirs (files s0))"
  let ?step = "\<lambda>s (folder, tys).
            let versions = map (\<lambda>dir. dir ''version'')
                  (filter (\<lambda>dir. dir ''folder'' = Some folder \<and> dir ''lang'' = original_language)
                     ?dirs)
            in if versions = [] then Inr s
               else
                 foldE (\<lambda>s (version, language).
                     visit_folder body tys (joinFolder folder language version)
                       (joinFolder folder original_language version) s)
                   (map (\<lambda>dir. (dir ''version'', dir ''lang''))
                      (filter (\<lambda>dir. dir ''folder'' = Some folder \<and> dir ''version'' \<in> set versions
                                  \<and> dir ''lang'' \<noteq> original_language) ?dirs))
                   s"
  from run True have "foldE ?step folders s0 = Inr s'"
    by (simp add: loopFiles_def Let_def)
  then show ?thesis using init
  proof (rule foldE_invariant)
    fix s x r
    assume "P s" and step: "?step s x = Inr r"
    obtain folder tys where x: "x = (folder, tys)" by (cases x)
    show "P r"
    proof (cases "map (\<lambda>dir. dir ''version'')
                  (filter (\<lambda>dir. dir ''folder'' = Some folder \<and> dir ''lang'' = original_language)
                     ?dirs) = []")
      case True
      with step x \<open>P s\<close> show ?thesis by (simp add: Let_def)
    next
      case False
      with step x obtain pairs where
        "foldE (\<lambda>s (version, language).
                     visit_folder body tys (joinFolder folder language version)
                       (joinFolder folder original_language version) s) pairs s = Inr r"
        by (simp add: Let_def)
      then show ?thesis using \<open>P s\<close>
        by (rule foldE_invariant) (auto intro: visit)
    qed
  qed
next
  case False
  let ?step = "\<lambda>s (folder, tys).
            foldE (\<lambda>s edit_folder.
                visit_folder (\<lambda>orig_folder s edit_file. Inl ValueError) tys edit_folder [] s)
              (filter (\<lambda>dir. splitFolder dir ''folder'' = Some folder) (listdirs (files s)))
              s"
  from run False have "foldE ?step folders s0 = Inr s'"
    by (simp add: loopFiles_def)
  then show ?thesis using init
  proof (rule foldE_invariant)
    fix s x r
    assume "P s" and step: "?step s x = Inr r"
    obtain folder tys where x: "x = (folder, tys)" by (cases x)
    from step x have "foldE (\<lambda>s edit_folder.
                visit_folder (\<lambda>orig_folder s edit_file. Inl ValueError) tys edit_folder [] s)
              (filter (\<lambda>dir. splitFolder dir ''folder'' = Some folder) (listdirs (files s)))
              s = Inr r" by simp
    then show "P r" using \<open>P s\<close>
      by (rule foldE_invariant) (auto intro: visit)
  qed
qed

lemma foldE_raise: "foldE (\<lambda>s x. Inl e) xs s = Inr s' \<Longrightarrow> xs = [] \<and> s' = s"
  by (cases xs) (auto simp: bindE_def)

lemma visit_folder_create_balanced:
  assumes "b = create_item t force_override \<or> b = (\<lambda>orig_folder s edit_file. Inl ValueError)"
    and "balanced s" and "visit_folder b tys e og s = Inr s'"
  shows "balanced s'"
  using assms(1)
proof
  assume "b = create_item t force_override"
  with assms(3) create_items_balance show ?thesis
    using assms(2)
    by (fastforce simp: visit_folder_def Let_def say_def VERBOSE_def balanced_def
        announced_append warnings_append)
next
  assume "b = (\<lambda>orig_folder s edit_file. Inl ValueError)"
  with assms(3) foldE_raise show ?thesis
    using assms(2)
    by (fastforce simp: visit_folder_def Let_def say_def VERBOSE_def balanced_def
        announced_append warnings_append)
qed

lemma loopFiles_create_balanced:
  assumes "loopFiles folders original_language (create_item t force_override) s0 = Inr s'"
    and "balanced s0"
  shows "balanced s'"
  using assms by (rule loopFiles_invariant) (rule visit_folder_create_balanced)

text \<open>
  C10. Whenever the body of \<open>createXDeltaPatches\<close> returns for a file, it has added one
  to exactly one of the five counters \<open>create\<close>, \<open>update\<close>, \<open>delete\<close>, \<open>keep\<close>, \<open>skip\<close>
  when the original of the file exists, and has left the dictionary as it was when the
  original is missing. Hence, in the state that a run returns, the five counters (an
  absent key counting as 0) sum to the number of files that \<open>loopFiles\<close> announced
  minus the number of warnings about a missing original, which is the number of files
  worked on whose original existed. A run that raises returns no dictionary.
\<close>

theorem createXDeltaPatches_counter_sum:
  "(create_item t force_override orig_folder s f = Inr s' \<longrightarrow>
      (if path_exists (files s) (join_path orig_folder (extpath f))
       then \<exists>k \<in> {''create'', ''update'', ''delete'', ''keep'', ''skip''}.
              ctr s' = (ctr s)(k \<mapsto> count (ctr s) k + 1)
       else ctr s' = ctr s))
   \<and> (createXDeltaPatches t xdeltaFolders original_language force_override fs = Inr r \<longrightarrow>
        count (ctr r) ''create'' + count (ctr r) ''update'' + count (ctr r) ''delete''
          + count (ctr r) ''keep'' + count (ctr r) ''skip''
        = announced (trace r) - warnings (trace r))"
proof -
  have "balanced r" if "createXDeltaPatches t xdeltaFolders original_language force_override fs = Inr r"
    using that unfolding createXDeltaPatches_def
    by (rule loopFiles_create_balanced) (simp add: balanced_def total_def count_def)
  then show ?thesis
    using create_item_counts [of t force_override orig_folder s f s']
    by (auto simp: balanced_def total_def)
qed

theorem createXDeltaPatches_counter_sum_witness:
  "create_item demo_tools False ''Script_JA'' \<lparr>files = demo_fs, ctr = Map.empty, trace = []\<rparr>
      [''Script_EN'', ''b.dat'']
    = Inr \<lparr>files = demo_fs, ctr = [''skip'' \<mapsto> 1], trace = []\<rparr>
   \<and> path_exists demo_fs (join_path ''Script_JA'' (extpath [''Script_EN'', ''b.dat'']))
   \<and> (case createXDeltaPatches demo_tools demo_folders (Some ''JA'') False demo_fs of
        Inl e \<Rightarrow> False
      | Inr r \<Rightarrow> count (ctr r) ''create'' + count (ctr r) ''update'' + count (ctr r) ''delete''
                 + count (ctr r) ''keep'' + count (ctr r) ''skip''
               = announced (trace r) - warnings (trace r)
               \<and> announced (trace r) = 3 \<and> warnings (trace r) = 1)"
proof -
  have step: "create_item demo_tools False ''Script_JA''
      \<lparr>files = demo_fs, ctr = Map.empty, trace = []\<rparr> [''Script_EN'', ''b.dat'']
    = Inr \<lparr>files = demo_fs, ctr = [''skip'' \<mapsto> 1], trace = []\<rparr>"
    by (simp add: create_item_def demo_fs_def demo_tools_def hash_file_def join_path_def
        extpath_def add_suffix_def is_file_def path_exists_def is_dir_def count_def bindE_def
        say_def VERBOSE_def bump_def Let_def)
  have ex: "path_exists demo_fs (join_path ''Script_JA'' (extpath [''Script_EN'', ''b.dat'']))"
    by (simp add: demo_fs_def join_path_def extpath_def is_file_def path_exists_def)
  have "(case createXDeltaPatches demo_tools demo_folders (Some ''JA'') False demo_fs of
          Inl e \<Rightarrow> False | Inr r \<Rightarrow> announced (trace r) = 3 \<and> warnings (trace r) = 1)"
    by code_simp
  then obtain r where
    r: "createXDeltaPatches demo_tools demo_folders (Some ''JA'') False demo_fs = Inr r"
      "announced (trace r) = 3" "warnings (trace r) = 1"
    by (auto split: sum.splits)
  from createXDeltaPatches_counter_sum [of demo_tools False "''Script_JA''"
      "\<lparr>files = demo_fs, ctr = Map.empty, trace = []\<rparr>" "[''Script_EN'', ''b.dat'']"
      "\<lparr>files = demo_fs, ctr = [''skip'' \<mapsto> 1], trace = []\<rparr>"
      demo_folders "Some ''JA''" demo_fs r] r step ex
  show ?thesis by simp
qed

section \<open>Properties of collectFiles and distributeOtherFiles\<close>

subsection \<open>The first language that holds a file\<close>




lemma fold_collect_new:
  "(g, s) \<in> set (fold collect_file xs fl) \<Longrightarrow> (g, s) \<in> set fl \<or> (g \<in> set xs \<and> s = extpath g)"
proof (induction xs arbitrary: fl)
  case Nil
  then show ?case by simp
next
  case (Cons x xs)
  from Cons.IH [OF Cons.prems [simplified]] show ?case
    by (auto simp: collect_file_def Let_def split: if_splits)
qed


lemma candidates_flat:
  "candidates fs languages folder tys ver =
     fold collect_file
       (concat (map (\<lambda>lang. walk fs (joinFolder folder lang ver) tys) (map Some languages @ [None]))) []"
proof -
  have "fold (\<lambda>lang fl. fold collect_file (w lang) fl) ls fl = fold collect_file (concat (map w ls)) fl"
    for w :: "string option \<Rightarrow> path list" and ls fl
    by (induction ls arbitrary: fl) auto
  then show ?thesis by (simp add: candidates_def)
qed

lemma drop_unchanged_set:
  "drop_unchanged t fs og fl = Inr r \<Longrightarrow>
     set r = {(f, s) \<in> set fl. \<not> path_exists fs (join_path og s)
                          \<or> hash_file t fs (join_path og s) \<noteq> hash_file t fs f}"
proof (induction fl arbitrary: r)
  case Nil
  then show ?case by simp
next
  case (Cons x fl)
  obtain f s where x: "x = (f, s)" by (cases x)
  from Cons.prems x obtain keep r' where
    k: "(if \<not> path_exists fs (join_path og s) then Inr True
            else bindE (hash_file t fs (join_path og s)) (\<lambda>ho.
                 bindE (hash_file t fs f) (\<lambda>hf. Inr (ho \<noteq> hf)))) = Inr keep"
    and r': "drop_unchanged t fs og fl = Inr r'" and r: "r = (if keep then (f, s) # r' else r')"
    by (auto simp: bindE_def split: sum.splits)
  from k have "keep \<longleftrightarrow> \<not> path_exists fs (join_path og s)
                          \<or> hash_file t fs (join_path og s) \<noteq> hash_file t fs f"
    by (auto simp: bindE_def split: if_splits sum.splits)
  with Cons.IH [OF r'] r x show ?case by auto
qed




subsection \<open>Files superseded by the update\<close>

lemma walk_in_files: "p \<in> set (walk fs dir tys) \<Longrightarrow> p \<in> fst ` set fs"
  by (auto simp: walk_def)

lemma candidates_from_files:
  assumes "(f, sn) \<in> set (candidates fs languages folder tys ver)"
  shows "f \<in> fst ` set fs \<and> sn = extpath f"
proof -
  let ?all = "concat (map (\<lambda>lang. walk fs (joinFolder folder lang ver) tys) (map Some languages @ [None]))"
  from assms have "(f, sn) \<in> set (fold collect_file ?all [])" by (simp only: candidates_flat)
  from fold_collect_new [OF this] have "f \<in> set ?all" "sn = extpath f" by simp_all
  then obtain lang where "f \<in> set (walk fs (joinFolder folder lang ver) tys)" by auto
  with \<open>sn = extpath f\<close> show ?thesis using walk_in_files by blast
qed

lemma collectFiles_from_files:
  assumes "collectFiles t fs languages ol folder tys ver = Inr fl" and "(f, sn) \<in> set fl"
  shows "f \<in> fst ` set fs \<and> sn = extpath f"
proof -
  from drop_unchanged_set [OF assms(1) [unfolded collectFiles_def]] assms(2)
  have "(f, sn) \<in> set (candidates fs languages folder tys ver)" by simp
  then show ?thesis by (rule candidates_from_files)
qed

lemma copy_item_frame:
  assumes "copy_item t force_override verbose dest_folder s (f, sn) = Inr s'"
    and "p \<noteq> filter (\<lambda>seg. seg \<noteq> []) (dest_folder @ sn)"
  shows "map_of (files s') p = map_of (files s) p"
  using assms
  by (auto simp: copy_item_def Let_def bindE_def bump_def say_def remove_def copyfile_def
      update_conv' delete_conv'
      split: if_splits sum.splits option.splits)

lemma copy_item_count:
  assumes "copy_item t force_override verbose dest_folder s item = Inr s'"
  shows "copied (ctr s') = copied (ctr s) + 1"
  using assms
  by (cases item)
     (auto simp: copy_item_def Let_def bindE_def bump_def say_def copied_def count_upd
      split: if_splits sum.splits)

lemma copy_items:
  assumes "foldE (copy_item t force_override verbose dest_folder) fl s = Inr s'"
  shows "copied (ctr s') = copied (ctr s) + length fl
       \<and> (\<forall>p. (\<forall>(f, sn) \<in> set fl. p \<noteq> filter (\<lambda>seg. seg \<noteq> []) (dest_folder @ sn)) \<longrightarrow>
              map_of (files s') p = map_of (files s) p)"
  using assms
proof (induction fl arbitrary: s)
  case Nil
  then show ?case by simp
next
  case (Cons x fl)
  obtain f sn where x: "x = (f, sn)" by (cases x)
  from Cons.prems obtain s1 where
    s1: "copy_item t force_override verbose dest_folder s x = Inr s1"
    "foldE (copy_item t force_override verbose dest_folder) fl s1 = Inr s'"
    by (auto simp: bindE_def split: sum.splits)
  from copy_item_count [OF s1(1)] copy_item_frame [OF s1(1) [unfolded x]] Cons.IH [OF s1(2)] x
  show ?case by auto
qed


lemma filter_nonempty_eq:
  "[] \<notin> set sn \<Longrightarrow> [] \<notin> set sn' \<Longrightarrow>
     filter (\<lambda>seg. seg \<noteq> []) (d @ sn) = filter (\<lambda>seg. seg \<noteq> []) (d @ sn') \<Longrightarrow> sn = sn'"
proof -
  assume a: "[] \<notin> set sn" "[] \<notin> set sn'"
    and e: "filter (\<lambda>seg. seg \<noteq> []) (d @ sn) = filter (\<lambda>seg. seg \<noteq> []) (d @ sn')"
  from a have "filter (\<lambda>seg. seg \<noteq> []) sn = sn" "filter (\<lambda>seg. seg \<noteq> []) sn' = sn'"
    by (auto simp: filter_id_conv)
  with e show ?thesis by simp
qed

lemma extpath_segments: "[] \<notin> set p \<Longrightarrow> [] \<notin> set (extpath p)"
  by (cases p) (simp_all add: extpath_def)

text \<open>
  C6. Take the turn of \<open>distributeOtherFiles\<close> for the base tier \<open>None\<close> when the tiers
  are \<open>[None, V]\<close>, on a file system whose paths have no empty segment, and let \<open>fl\<close>
  be what \<open>collectFiles\<close> returns for the base tier. The files the turn copies are those
  of \<open>fl\<close> whose simple name is not the simple name of a file with an accepted extension
  below \<^verbatim>\<open>joinFolder(folder, original_language, V)\<close>. For a candidate \<open>(f, sn)\<close> of
  \<open>fl\<close> whose simple name is one of those, the turn leaves the destination path of
  \<open>sn\<close> as it was, and the three counters grow by the number of the other candidates
  only: the candidate is not copied and counts nowhere, whatever edits the base tier
  holds.
\<close>

theorem base_tier_superseded:
  assumes wf: "\<forall>p \<in> fst ` set (files s). [] \<notin> set p"
    and coll: "collectFiles t (files s) languages original_language folder tys None = Inr fl"
    and run: "distribute_version t parentFolders languages [None, V] original_language
                destination_dir force_override verbose folder tys s None = Inr s'"
    and cand: "(f, sn) \<in> set fl"
    and sup: "sn \<in> extpath ` set (walk (files s) (joinFolder folder original_language V) tys)"
  shows "to_copy t (files s) languages original_language [None, V] folder tys None =
           Inr (filter (\<lambda>(file, simplename). simplename \<notin>
                   extpath ` set (walk (files s) (joinFolder folder original_language V) tys)) fl)
       \<and> (\<forall>parent. map_of parentFolders folder = Some parent \<longrightarrow>
             map_of (files s') (filter (\<lambda>seg. seg \<noteq> []) ((destination_dir @ parent) @ sn))
               = map_of (files s) (filter (\<lambda>seg. seg \<noteq> []) ((destination_dir @ parent) @ sn)))
       \<and> copied (ctr s') = copied (ctr s) + length (filter (\<lambda>(file, simplename). simplename \<notin>
                   extpath ` set (walk (files s) (joinFolder folder original_language V) tys)) fl)"
proof -
  let ?upd = "extpath ` set (walk (files s) (joinFolder folder original_language V) tys)"
  let ?fl = "filter (\<lambda>(file, simplename). simplename \<notin> ?upd) fl"
  have tc: "to_copy t (files s) languages original_language [None, V] folder tys None = Inr ?fl"
    using coll by (simp add: to_copy_def bindE_def update_files_def)
  let ?body = "\<lambda>s0. (case map_of parentFolders folder of
            None \<Rightarrow> Inl KeyError
          | Some parent \<Rightarrow>
              foldE (copy_item t force_override verbose (destination_dir @ parent)) ?fl s0)"
  obtain s0 where s0: "files s0 = files s" "ctr s0 = ctr s" and "?body s0 = Inr s'"
  proof (cases "verbose \<ge> 3 \<or> verbose \<ge> 1 \<and> length ?fl > 0")
    case True
    with run tc have
      "?body (s\<lparr>trace := trace s @ [Folder (joinFolder folder None None), FileCount (length ?fl)]\<rparr>)
         = Inr s'"
      by (auto simp: distribute_version_def bindE_def Let_def split: if_splits)
    then show ?thesis by (rule that [rotated 2]) simp_all
  next
    case False
    with run tc have "?body s = Inr s'"
      by (auto simp: distribute_version_def bindE_def Let_def split: if_splits)
    then show ?thesis by (rule that [rotated 2]) simp_all
  qed
  then obtain parent where
    parent: "map_of parentFolders folder = Some parent"
    and loop: "foldE (copy_item t force_override verbose (destination_dir @ parent)) ?fl s0 = Inr s'"
    by (cases "map_of parentFolders folder") auto
  have segs: "[] \<notin> set sn'" if "(f', sn') \<in> set fl" for f' sn'
  proof -
    from collectFiles_from_files [OF coll that] have "f' \<in> fst ` set (files s)" "sn' = extpath f'"
      by simp_all
    with wf show ?thesis using extpath_segments by blast
  qed
  from segs [OF cand] have nosn: "[] \<notin> set sn" .
  have other: "p \<noteq> filter (\<lambda>seg. seg \<noteq> []) ((destination_dir @ parent) @ sn')"
    if "(f', sn') \<in> set ?fl" and "p = filter (\<lambda>seg. seg \<noteq> []) ((destination_dir @ parent) @ sn)"
    for p f' sn'
  proof
    assume eq: "p = filter (\<lambda>seg. seg \<noteq> []) ((destination_dir @ parent) @ sn')"
    from that(1) have in_fl: "(f', sn') \<in> set fl" and "sn' \<notin> ?upd" by auto
    from filter_nonempty_eq [OF nosn segs [OF in_fl]] that(2) eq have "sn = sn'" by simp
    with sup \<open>sn' \<notin> ?upd\<close> show False by simp
  qed
  from copy_items [OF loop] s0 have
    cnt: "copied (ctr s') = copied (ctr s) + length ?fl"
    and frame: "\<And>p. (\<forall>(f, sn) \<in> set ?fl. p \<noteq> filter (\<lambda>seg. seg \<noteq> []) ((destination_dir @ parent) @ sn))
                  \<Longrightarrow> map_of (files s') p = map_of (files s) p"
    by simp_all
  have "map_of (files s') (filter (\<lambda>seg. seg \<noteq> []) ((destination_dir @ parent) @ sn))
               = map_of (files s) (filter (\<lambda>seg. seg \<noteq> []) ((destination_dir @ parent) @ sn))"
    by (rule frame) (use other in blast)
  with parent tc cnt show ?thesis by simp
qed

theorem base_tier_superseded_witness:
  "collectFiles demo_tools demo_dist_fs [''EN'', ''DE''] (Some ''JA'') ''Script'' (ExtList [''.dat'']) None
     = Inr [([''Script_EN'', ''b.dat''], [''b.dat'']), ([''Script_DE'', ''c.dat''], [''c.dat''])]
   \<and> [''b.dat''] \<in> extpath ` set (walk demo_dist_fs (joinFolder ''Script'' (Some ''JA'') (Some ''v1.1''))
                                  (ExtList [''.dat'']))
   \<and> to_copy demo_tools demo_dist_fs [''EN'', ''DE''] (Some ''JA'') [None, Some ''v1.1''] ''Script''
        (ExtList [''.dat'']) None
     = Inr [([''Script_DE'', ''c.dat''], [''c.dat''])]
   \<and> (case distribute_version demo_tools [(''Script'', [''romfs''])] [''EN'', ''DE'']
              [None, Some ''v1.1''] (Some ''JA'') [''_dist''] False 2 ''Script'' (ExtList [''.dat''])
              \<lparr>files = demo_dist_fs, ctr = Map.empty, trace = []\<rparr> None of
         Inl e \<Rightarrow> False
       | Inr s' \<Rightarrow> map_of (files s') [''_dist'', ''romfs'', ''b.dat''] = None
                  \<and> map_of (files s') [''_dist'', ''romfs'', ''c.dat''] = Some ''CDE''
                  \<and> copied (ctr s') = 1)"
proof -
  let ?s = "\<lparr>files = demo_dist_fs, ctr = Map.empty, trace = []\<rparr>"
  have wf: "\<forall>p \<in> fst ` set (files ?s). [] \<notin> set p"
    by (simp add: demo_dist_fs_def)
  have coll: "collectFiles demo_tools (files ?s) [''EN'', ''DE''] (Some ''JA'') ''Script''
        (ExtList [''.dat'']) None
     = Inr [([''Script_EN'', ''b.dat''], [''b.dat'']), ([''Script_DE'', ''c.dat''], [''c.dat''])]"
    by code_simp
  have sup: "[''b.dat''] \<in> extpath ` set (walk (files ?s)
                (joinFolder ''Script'' (Some ''JA'') (Some ''v1.1'')) (ExtList [''.dat'']))"
    by (simp add: walk_def demo_dist_fs_def joinFolder_def truthy_def extpath_def splitext_ext_def)
  have "(case distribute_version demo_tools [(''Script'', [''romfs''])] [''EN'', ''DE'']
              [None, Some ''v1.1''] (Some ''JA'') [''_dist''] False 2 ''Script'' (ExtList [''.dat''])
              ?s None of
         Inl e \<Rightarrow> False
       | Inr s' \<Rightarrow> map_of (files s') [''_dist'', ''romfs'', ''c.dat''] = Some ''CDE'')"
    by code_simp
  then obtain s' where
    run: "distribute_version demo_tools [(''Script'', [''romfs''])] [''EN'', ''DE'']
              [None, Some ''v1.1''] (Some ''JA'') [''_dist''] False 2 ''Script'' (ExtList [''.dat''])
              ?s None = Inr s'"
    and c: "map_of (files s') [''_dist'', ''romfs'', ''c.dat''] = Some ''CDE''"
    by (auto split: sum.splits)
  have old: "map_of demo_dist_fs [''_dist'', ''romfs'', ''b.dat''] = None"
    by (simp add: demo_dist_fs_def)
  from base_tier_superseded [OF wf coll run _ sup, of "[''Script_EN'', ''b.dat'']"] coll sup run c old
  show ?thesis
    by (simp add: copied_def count_def walk_def demo_dist_fs_def joinFolder_def truthy_def
        extpath_def splitext_ext_def)
qed

section \<open>Properties of two runs of createXDeltaPatches\<close>

subsection \<open>Generated files in the file system\<close>

text \<open>
  Writing or removing a file with a generated name beside an existing file leaves the
  sources, the top-level directories and the directories as they are.
\<close>

lemma map_of_sources: "\<not> gen q \<Longrightarrow> map_of (sources fs) q = map_of fs q"
  by (induction fs) (auto simp: sources_def)























subsection \<open>What the loop keeps\<close>

lemma foldE_accumulate:
  assumes "foldE f xs s = Inr s'" and "Q D s"
    and "\<And>D s x s'. Q D s \<Longrightarrow> x \<in> set xs \<Longrightarrow> f s x = Inr s' \<Longrightarrow> Q (D \<union> g x) s'"
  shows "Q (D \<union> \<Union> (g ` set xs)) s'"
  using assms
proof (induction xs arbitrary: s D)
  case Nil
  then show ?case by simp
next
  case (Cons x xs)
  from Cons.prems(1) obtain s1 where s1: "f s x = Inr s1" "foldE f xs s1 = Inr s'"
    by (auto simp: bindE_def split: sum.splits)
  have "Q (D \<union> g x) s1" using Cons.prems(3) [OF Cons.prems(2) _ s1(1)] by simp
  from Cons.IH [OF s1(2) this] Cons.prems(3)
  have "Q (D \<union> g x \<union> \<Union> (g ` set xs)) s'" by auto
  then show ?case by (simp add: Un_assoc)
qed

















subsection \<open>The folders that a run visits\<close>











end
